theory Spec2Isabelle
  imports Main "HOL-Library.Sublist"
begin

section \<open>JavaScript strings and thrown values\<close>

text \<open>
  A JavaScript string is a sequence of UTF-16 code units; it is modelled as the list of
  these code units.  \<open>ascii\<close> embeds an ASCII literal of the source.  Messages of the
  source that are written in Chinese are given by their code units.
\<close>

type_synonym jsstring = "nat list"

definition ascii :: "string \<Rightarrow> jsstring" where
  "ascii s = map of_char s"

fun starts_with :: "jsstring \<Rightarrow> jsstring \<Rightarrow> bool" where
  "starts_with s [] = True"
| "starts_with [] (n # ns) = False"
| "starts_with (c # cs) (n # ns) = (c = n \<and> starts_with cs ns)"

text \<open>\<open>String.prototype.includes\<close>: the needle occurs as a contiguous run.\<close>

fun str_includes :: "jsstring \<Rightarrow> jsstring \<Rightarrow> bool" where
  "str_includes [] needle = (needle = [])"
| "str_includes (c # cs) needle = (starts_with (c # cs) needle \<or> str_includes cs needle)"

text \<open>\<open>s.slice(-n)\<close>: the last \<open>n\<close> code units, the whole string when it is shorter.\<close>

definition slice_last :: "nat \<Rightarrow> jsstring \<Rightarrow> jsstring" where
  "slice_last n s = drop (length s - n) s"

text \<open>\<open>!v\<close> for an optional string: \<open>null\<close>, \<open>undefined\<close> and the empty string.\<close>

definition falsy :: "jsstring option \<Rightarrow> bool" where
  "falsy v = (case v of None \<Rightarrow> True | Some s \<Rightarrow> s = [])"

text \<open>
  A thrown value is either an instance of \<open>Error\<close>, carrying its message, or anything
  else (the \<open>error instanceof Error\<close> tests of the source tell them apart).
\<close>

datatype thrown = Error jsstring | Non_error

text \<open>The needle of the outer \<open>catch\<close> of \<open>loadKeysFromStorage\<close> (four characters: "wrong password").\<close>

definition PASSWORD_ERROR_MARK :: jsstring where
  "PASSWORD_ERROR_MARK = [0x5BC6, 0x7801, 0x9519, 0x8BEF]"

text \<open>The first message of \<open>decryptData\<close> ("wrong password or data corrupted"); it starts with the needle.\<close>

definition MSG_WRONG_PASSWORD :: jsstring where
  "MSG_WRONG_PASSWORD =
     [0x5BC6, 0x7801, 0x9519, 0x8BEF, 0x6216, 0x6570, 0x636E, 0x5DF2, 0x635F, 0x574F, 0x3002]"

text \<open>The second message of \<open>decryptData\<close> ("data decryption failed").\<close>

definition MSG_DECRYPT_FAILED :: jsstring where
  "MSG_DECRYPT_FAILED = [0x6570, 0x636E, 0x89E3, 0x5BC6, 0x5931, 0x8D25, 0x3002]"

text \<open>The message of \<open>encryptData\<close> ("data encryption failed").\<close>

definition MSG_ENCRYPT_FAILED :: jsstring where
  "MSG_ENCRYPT_FAILED = [0x6570, 0x636E, 0x52A0, 0x5BC6, 0x5931, 0x8D25, 0x3002]"

text \<open>The message of \<open>setMasterPassword\<close> ("cannot set the master password verifier").\<close>

definition MSG_SET_VERIFIER_FAILED :: jsstring where
  "MSG_SET_VERIFIER_FAILED =
     [0x65E0, 0x6CD5, 0x8BBE, 0x7F6E, 0x4E3B, 0x5BC6, 0x7801, 0x9A8C, 0x8BC1, 0x5668, 0x3002]"

text \<open>The message that \<open>loadKeysFromStorage\<close> throws, around \<open>storedKey.keyId.slice(-8)\<close>.\<close>

definition MSG_LOAD_FAILED :: "jsstring \<Rightarrow> jsstring" where
  "MSG_LOAD_FAILED id8 =
     [0x52A0, 0x8F7D, 0x5BC6, 0x94A5, 0x0020] @ id8 @
     [0x0020, 0x65F6, 0x4E3B, 0x5BC6, 0x7801, 0x9519, 0x8BEF, 0x6216, 0x6570, 0x636E, 0x635F,
      0x574F, 0x3002, 0x8BF7, 0x68C0, 0x67E5, 0x4E3B, 0x5BC6, 0x7801, 0x6216, 0x91CD, 0x7F6E,
      0x5E94, 0x7528, 0x3002]"

text \<open>The message of the first loop of \<open>saveKeysToStorage\<close>, around \<open>key.keyId.slice(-8)\<close>.\<close>

definition MSG_PREPARE_FAILED :: "jsstring \<Rightarrow> jsstring" where
  "MSG_PREPARE_FAILED id8 =
     [0x65E0, 0x6CD5, 0x51C6, 0x5907, 0x5BC6, 0x94A5, 0x0020] @ id8 @
     [0x0020, 0x8FDB, 0x884C, 0x5B58, 0x50A8, 0x3002]"

text \<open>The message of \<open>saveKeysToStorage\<close> when \<open>setItem\<close> throws.\<close>

definition MSG_SAVE_FAILED :: jsstring where
  "MSG_SAVE_FAILED =
     [0x65E0, 0x6CD5, 0x5C06, 0x5BC6, 0x94A5, 0x4FDD, 0x5B58, 0x5230, 0x6D4F, 0x89C8, 0x5668,
      0x5B58, 0x50A8, 0x3002, 0x5B58, 0x50A8, 0x7A7A, 0x95F4, 0x53EF, 0x80FD, 0x5DF2, 0x6EE1,
      0x3002]"

section \<open>The cryptographic engine (openpgp), taken as a parameter\<close>

text \<open>
  A \<open>Date\<close> object; \<open>Invalid_date\<close> is the one whose \<open>toISOString\<close> throws.
\<close>

datatype js_date = Date int | Invalid_date

text \<open>
  A parsed key object (\<open>openpgp.Key | openpgp.PrivateKey\<close>), given by what its
  accessors return: \<open>getKeyID().toHex()\<close>, \<open>getPrimaryUser()\<close> (which may throw; the
  option is the value of \<open>primaryUser?.user?.userID?.userID\<close>), \<open>getUserIDs()\<close> (for
  each element the value of \<open>uidPacket?.userID\<close>), \<open>getCreationTime()\<close>,
  \<open>isPrivate()\<close>, \<open>isDecrypted()\<close> and \<open>armor()\<close>.
\<close>

record key_object =
  ko_keyID :: jsstring
  ko_primaryUser :: "thrown + jsstring option"
  ko_userIDs :: "jsstring option list"
  ko_creationTime :: js_date
  ko_isPrivate :: bool
  ko_isDecrypted :: bool
  ko_armor :: jsstring

datatype decrypt_outcome = Decrypted_string jsstring | Decrypted_other | Decrypt_throws thrown

datatype parse_outcome = Parsed key_object | Parsed_null | Parse_throws thrown

text \<open>
  The engine functions that \<open>storage.ts\<close> and \<open>page.tsx\<close> call.
  \<^item> \<open>encrypt_sym seed plaintext password\<close>: \<open>createMessage\<close> followed by \<open>encrypt\<close>
    with \<open>passwords: [password]\<close>, armored.  The engine draws fresh random parameters
    at every call; \<open>seed\<close> stands for them.
  \<^item> \<open>decrypt_sym armored password\<close>: \<open>readMessage\<close> followed by \<open>decrypt\<close> with
    \<open>passwords: [password]\<close>, \<open>format: 'string'\<close>.
  \<^item> \<open>readKey\<close>, \<open>readPrivateKey\<close>: parsing of an armored key.
  \<^item> \<open>decryptKey keyObject passphrase\<close>: unlocking of a private key.
\<close>

record engine =
  encrypt_sym :: "nat \<Rightarrow> jsstring \<Rightarrow> jsstring \<Rightarrow> thrown + jsstring"
  decrypt_sym :: "jsstring \<Rightarrow> jsstring \<Rightarrow> decrypt_outcome"
  readKey :: "jsstring \<Rightarrow> parse_outcome"
  readPrivateKey :: "jsstring \<Rightarrow> parse_outcome"
  decryptKey :: "key_object \<Rightarrow> jsstring \<Rightarrow> thrown + key_object"

section \<open>\<open>src/types/index.ts\<close>\<close>

record pgpkey =
  keyId :: jsstring
  armored :: jsstring
  keyObject :: key_object
  userIds :: "jsstring list"
  primaryUserId :: jsstring
  isPrivate :: bool
  creationTime :: js_date

text \<open>
  \<open>StoredKey\<close>.  \<open>sk_type\<close> is compared with \<open>'private'\<close> only, so any other value
  stands for \<open>'public'\<close> and for a missing or ill-typed field alike.  The stored
  \<open>creationTime\<close>, an ISO string, is given by the instant it denotes.
\<close>

record stored_key =
  sk_keyId :: jsstring
  sk_type :: jsstring
  sk_data :: jsstring
  sk_userIds :: "jsstring list"
  sk_primaryUserId :: jsstring
  sk_creationTime :: int

section \<open>\<open>localStorage\<close>\<close>

text \<open>
  An element of the persisted array either passes the structural test of
  \<open>loadKeysFromStorage\<close> (it is truthy and its \<open>keyId\<close> and \<open>data\<close> are strings) or
  does not.
\<close>

datatype stored_entry = Invalid_entry | Entry stored_key

text \<open>
  The string stored under \<open>STORAGE_KEY\<close>, given by what \<open>JSON.parse\<close> makes of it:
  a text that \<open>JSON.parse\<close> rejects (the empty string is one), a JSON value that is not
  an array, or an array.
\<close>

datatype stored_doc = Unparseable jsstring | Json_non_array | Json_array "stored_entry list"

text \<open>
  The two items of \<open>localStorage\<close> that the application uses, \<open>None\<close> when
  \<open>getItem\<close> returns \<open>null\<close>.  \<open>quota_exceeded\<close> tells whether \<open>setItem\<close> throws.
\<close>

record storage =
  keys_item :: "stored_doc option"
  verifier_item :: "jsstring option"
  quota_exceeded :: bool

definition VERIFIER_PLAINTEXT :: jsstring where
  "VERIFIER_PLAINTEXT = ascii ''master_password_correct''"

section \<open>\<open>src/lib/storage.ts\<close>\<close>

definition hasMasterPassword :: "storage \<Rightarrow> bool" where
  "hasMasterPassword st = (verifier_item st \<noteq> None)"

definition encryptData :: "engine \<Rightarrow> nat \<Rightarrow> jsstring \<Rightarrow> jsstring \<Rightarrow> thrown + jsstring" where
  "encryptData eng seed plaintext password =
     (case encrypt_sym eng seed plaintext password of
        Inr armoredEncrypted \<Rightarrow> Inr armoredEncrypted
      | Inl error \<Rightarrow> Inl (Error MSG_ENCRYPT_FAILED))"

text \<open>The \<open>try\<close> block of \<open>decryptData\<close>.\<close>

definition decryptData_try :: "engine \<Rightarrow> jsstring \<Rightarrow> jsstring \<Rightarrow> thrown + jsstring" where
  "decryptData_try eng encryptedArmored password =
     (case decrypt_sym eng encryptedArmored password of
        Decrypted_string decryptedData \<Rightarrow> Inr decryptedData
      | Decrypted_other \<Rightarrow> Inl (Error (ascii ''Decrypted data is not a string.''))
      | Decrypt_throws error \<Rightarrow> Inl error)"

text \<open>The test of its \<open>catch\<close> block.\<close>

definition reports_password_failure :: "thrown \<Rightarrow> bool" where
  "reports_password_failure error =
     (case error of
        Error m \<Rightarrow> str_includes m (ascii ''password'') \<or> str_includes m (ascii ''Passphrase incorrect'')
      | Non_error \<Rightarrow> False)"

definition decryptData :: "engine \<Rightarrow> jsstring \<Rightarrow> jsstring \<Rightarrow> thrown + jsstring" where
  "decryptData eng encryptedArmored password =
     (case decryptData_try eng encryptedArmored password of
        Inr decryptedData \<Rightarrow> Inr decryptedData
      | Inl error \<Rightarrow>
          if reports_password_failure error then Inl (Error MSG_WRONG_PASSWORD)
          else Inl (Error MSG_DECRYPT_FAILED))"

definition setItem_verifier :: "storage \<Rightarrow> jsstring \<Rightarrow> thrown + storage" where
  "setItem_verifier st v =
     (if quota_exceeded st then Inl (Error (ascii ''QuotaExceededError''))
      else Inr (st\<lparr>verifier_item := Some v\<rparr>))"

definition setMasterPassword ::
  "engine \<Rightarrow> nat \<Rightarrow> jsstring \<Rightarrow> storage \<Rightarrow> (thrown + unit) \<times> storage" where
  "setMasterPassword eng seed password st =
     (case encryptData eng seed VERIFIER_PLAINTEXT password of
        Inl error \<Rightarrow> (Inl (Error MSG_SET_VERIFIER_FAILED), st)
      | Inr encryptedVerifierArmored \<Rightarrow>
          (case setItem_verifier st encryptedVerifierArmored of
             Inl error \<Rightarrow> (Inl (Error MSG_SET_VERIFIER_FAILED), st)
           | Inr st' \<Rightarrow> (Inr (), st')))"

text \<open>\<open>!storedVerifierArmored\<close> holds for \<open>null\<close> and for the empty string.\<close>

definition verifyMasterPassword :: "engine \<Rightarrow> jsstring \<Rightarrow> storage \<Rightarrow> bool" where
  "verifyMasterPassword eng password st =
     (case verifier_item st of
        None \<Rightarrow> False
      | Some storedVerifierArmored \<Rightarrow>
          if storedVerifierArmored = [] then False
          else (case decryptData eng storedVerifierArmored password of
                  Inr decrypted \<Rightarrow> decrypted = VERIFIER_PLAINTEXT
                | Inl error \<Rightarrow> False))"

definition clearAllStoredKeys :: "storage \<Rightarrow> storage" where
  "clearAllStoredKeys st = st\<lparr>keys_item := None, verifier_item := None\<rparr>"

text \<open>
  Lines 196 to 212 of \<open>loadKeysFromStorage\<close>: the record built from a parsed key object.
  \<open>getPrimaryUser\<close> is the one call that may throw there.
\<close>

definition hydrate :: "jsstring \<Rightarrow> key_object \<Rightarrow> thrown + pgpkey" where
  "hydrate armoredKeyData keyObj =
     (let actualKeyId = ko_keyID keyObj in
      case ko_primaryUser keyObj of
        Inl error \<Rightarrow> Inl error
      | Inr primaryUser \<Rightarrow>
          (let primaryUserId_v =
                 (case primaryUser of
                    Some u \<Rightarrow> u
                  | None \<Rightarrow> ascii ''No User ID ('' @ slice_last 8 actualKeyId @ ascii '')'');
               userIds_v =
                 map (\<lambda>uidPacket. case uidPacket of Some u \<Rightarrow> u | None \<Rightarrow> ascii ''No UserID packet'')
                   (ko_userIDs keyObj)
           in Inr \<lparr> keyId = actualKeyId,
                    armored = armoredKeyData,
                    keyObject = keyObj,
                    userIds = (if length userIds_v > 0 then userIds_v else [primaryUserId_v]),
                    primaryUserId = primaryUserId_v,
                    isPrivate = ko_isPrivate keyObj,
                    creationTime = ko_creationTime keyObj \<rparr>))"

text \<open>
  The body of the outer \<open>try\<close> for one stored key: \<open>Inr None\<close> is the \<open>continue\<close>
  after a parse error and the defensive branch for a null key object.
\<close>

definition loadKey_try :: "engine \<Rightarrow> jsstring \<Rightarrow> stored_key \<Rightarrow> thrown + pgpkey option" where
  "loadKey_try eng masterPassword storedKey =
     (case (if sk_type storedKey = ascii ''private''
            then (case decryptData eng (sk_data storedKey) masterPassword of
                    Inl error \<Rightarrow> Inl error
                  | Inr decrypted \<Rightarrow> Inr (decrypted, True))
            else Inr (sk_data storedKey, False)) of
        Inl error \<Rightarrow> Inl error
      | Inr (armoredKeyData, isPrivate_v) \<Rightarrow>
          (case (if isPrivate_v then readPrivateKey eng armoredKeyData
                 else readKey eng armoredKeyData) of
             Parse_throws parseError \<Rightarrow> Inr None
           | Parsed_null \<Rightarrow> Inr None
           | Parsed keyObj \<Rightarrow>
               (case hydrate armoredKeyData keyObj of
                  Inl error \<Rightarrow> Inl error
                | Inr k \<Rightarrow> Inr (Some k))))"

text \<open>The test of the outer \<open>catch\<close>.\<close>

definition is_password_error :: "thrown \<Rightarrow> bool" where
  "is_password_error error =
     (case error of Error m \<Rightarrow> str_includes m PASSWORD_ERROR_MARK | Non_error \<Rightarrow> False)"

datatype loop_step = Skip | Loaded pgpkey | Rethrow thrown

definition loadKey :: "engine \<Rightarrow> jsstring \<Rightarrow> stored_key \<Rightarrow> loop_step" where
  "loadKey eng masterPassword storedKey =
     (case loadKey_try eng masterPassword storedKey of
        Inr None \<Rightarrow> Skip
      | Inr (Some k) \<Rightarrow> Loaded k
      | Inl error \<Rightarrow>
          if is_password_error error
          then Rethrow (Error (MSG_LOAD_FAILED (slice_last 8 (sk_keyId storedKey))))
          else Skip)"

fun load_loop ::
  "engine \<Rightarrow> jsstring \<Rightarrow> stored_entry list \<Rightarrow> pgpkey list \<Rightarrow> thrown + pgpkey list" where
  "load_loop eng masterPassword [] loadedKeys = Inr loadedKeys"
| "load_loop eng masterPassword (Invalid_entry # rest) loadedKeys =
     load_loop eng masterPassword rest loadedKeys"
| "load_loop eng masterPassword (Entry storedKey # rest) loadedKeys =
     (case loadKey eng masterPassword storedKey of
        Skip \<Rightarrow> load_loop eng masterPassword rest loadedKeys
      | Loaded k \<Rightarrow> load_loop eng masterPassword rest (loadedKeys @ [k])
      | Rethrow error \<Rightarrow> Inl error)"

text \<open>\<open>!storedData\<close> holds for \<open>null\<close> and for the empty string.\<close>

definition loadKeysFromStorage ::
  "engine \<Rightarrow> jsstring \<Rightarrow> storage \<Rightarrow> (thrown + pgpkey list) \<times> storage" where
  "loadKeysFromStorage eng masterPassword st =
     (case keys_item st of
        None \<Rightarrow> (Inr [], st)
      | Some storedData \<Rightarrow>
          if storedData = Unparseable [] then (Inr [], st)
          else (case storedData of
                  Unparseable text \<Rightarrow> (Inr [], clearAllStoredKeys st)
                | Json_non_array \<Rightarrow> (Inr [], clearAllStoredKeys st)
                | Json_array storedKeys \<Rightarrow> (load_loop eng masterPassword storedKeys [], st)))"

definition toISOString :: "js_date \<Rightarrow> thrown + int" where
  "toISOString d =
     (case d of Date t \<Rightarrow> Inr t | Invalid_date \<Rightarrow> Inl (Error (ascii ''Invalid time value'')))"

text \<open>
  The first loop of \<open>saveKeysToStorage\<close>; \<open>seeds i\<close> is the randomness of the engine
  when the key at index \<open>i\<close> is encrypted.
\<close>

fun prepare_keys ::
  "engine \<Rightarrow> (nat \<Rightarrow> nat) \<Rightarrow> nat \<Rightarrow> pgpkey list \<Rightarrow> jsstring \<Rightarrow> thrown + stored_key list" where
  "prepare_keys eng seeds i [] masterPassword = Inr []"
| "prepare_keys eng seeds i (key # rest) masterPassword =
     (case (if isPrivate key then encryptData eng (seeds i) (armored key) masterPassword
            else Inr (armored key)) of
        Inl error \<Rightarrow> Inl (Error (MSG_PREPARE_FAILED (slice_last 8 (keyId key))))
      | Inr dataToStore \<Rightarrow>
          (case toISOString (creationTime key) of
             Inl error \<Rightarrow> Inl (Error (MSG_PREPARE_FAILED (slice_last 8 (keyId key))))
           | Inr isoTime \<Rightarrow>
               (case prepare_keys eng seeds (Suc i) rest masterPassword of
                  Inl error \<Rightarrow> Inl error
                | Inr keysToStore \<Rightarrow>
                    Inr (\<lparr> sk_keyId = keyId key,
                           sk_type = (if isPrivate key then ascii ''private'' else ascii ''public''),
                           sk_data = dataToStore,
                           sk_userIds = userIds key,
                           sk_primaryUserId = primaryUserId key,
                           sk_creationTime = isoTime \<rparr> # keysToStore))))"

definition saveKeysToStorage ::
  "engine \<Rightarrow> (nat \<Rightarrow> nat) \<Rightarrow> pgpkey list \<Rightarrow> jsstring \<Rightarrow> storage \<Rightarrow> (thrown + unit) \<times> storage" where
  "saveKeysToStorage eng seeds keys masterPassword st =
     (case prepare_keys eng seeds 0 keys masterPassword of
        Inl error \<Rightarrow> (Inl error, st)
      | Inr keysToStore \<Rightarrow>
          if quota_exceeded st then (Inl (Error MSG_SAVE_FAILED), st)
          else (Inr (), st\<lparr>keys_item := Some (Json_array (map Entry keysToStore))\<rparr>))"

section \<open>\<open>src/app/page.tsx\<close>\<close>

text \<open>
  The state of \<open>Home\<close> that the key operations read and write: the key list, the
  verified master password kept in memory, and \<open>localStorage\<close>.
\<close>

record home =
  keys :: "pgpkey list"
  masterPassword :: "jsstring option"
  local :: storage

text \<open>
  The calls of \<open>alert\<close>, each with the values spliced into its text
  (\<open>keyId.slice(-8)\<close>, the kind, the primary user identity, the error).
\<close>

datatype alert =
    Alert_no_master_password
  | Alert_save_failed thrown
  | Alert_private_exists jsstring
  | Alert_upgraded jsstring
  | Alert_public_exists jsstring
  | Alert_imported bool jsstring jsstring

text \<open>
  \<open>saveKeys\<close> and \<open>addKey\<close> are \<open>useCallback\<close> closures: each reads \<open>masterPassword\<close>
  and \<open>keys\<close> as they were at the render that created it, and writes the current state
  (\<open>setKeys\<close>) and \<open>localStorage\<close>.  The argument \<open>snap\<close> is the state of that render and
  \<open>h\<close> the current state; a closure of the latest render has \<open>snap = h\<close>.
\<close>

definition saveKeys ::
  "engine \<Rightarrow> (nat \<Rightarrow> nat) \<Rightarrow> home \<Rightarrow> pgpkey list \<Rightarrow> home \<Rightarrow> alert list \<times> home" where
  "saveKeys eng seeds snap updatedKeys h =
     (if falsy (masterPassword snap) then ([Alert_no_master_password], h)
      else
        (case saveKeysToStorage eng seeds updatedKeys (the (masterPassword snap)) (local h) of
           (Inl error, st) \<Rightarrow> ([Alert_save_failed error], h\<lparr>local := st\<rparr>)
         | (Inr u, st) \<Rightarrow> ([], h\<lparr>local := st\<rparr>)))"

text \<open>\<open>Array.prototype.findIndex\<close>, with \<open>None\<close> for \<open>-1\<close>.\<close>

fun findIndex :: "('a \<Rightarrow> bool) \<Rightarrow> 'a list \<Rightarrow> nat option" where
  "findIndex P [] = None"
| "findIndex P (x # xs) = (if P x then Some 0 else map_option Suc (findIndex P xs))"

text \<open>The tail of \<open>addKey\<close>: \<open>setKeys(updatedKeys); await saveKeys(updatedKeys)\<close>.\<close>

definition commitKeys ::
  "engine \<Rightarrow> (nat \<Rightarrow> nat) \<Rightarrow> home \<Rightarrow> alert \<Rightarrow> pgpkey list \<Rightarrow> home \<Rightarrow> alert list \<times> home" where
  "commitKeys eng seeds snap a updatedKeys h =
     (case saveKeys eng seeds snap updatedKeys (h\<lparr>keys := updatedKeys\<rparr>) of
        (alerts, h') \<Rightarrow> (a # alerts, h'))"

definition addKey ::
  "engine \<Rightarrow> (nat \<Rightarrow> nat) \<Rightarrow> home \<Rightarrow> pgpkey \<Rightarrow> home \<Rightarrow> alert list \<times> home" where
  "addKey eng seeds snap newKey h =
     (case findIndex (\<lambda>k. keyId k = keyId newKey) (keys snap) of
        Some existingKeyIndex \<Rightarrow>
          (let existingKey = keys snap ! existingKeyIndex in
           if isPrivate existingKey
           then ([Alert_private_exists (slice_last 8 (keyId newKey))], h)
           else if isPrivate newKey
           then commitKeys eng seeds snap (Alert_upgraded (slice_last 8 (keyId newKey)))
                  ((keys snap)[existingKeyIndex := newKey]) h
           else ([Alert_public_exists (slice_last 8 (keyId newKey))], h))
      | None \<Rightarrow>
          commitKeys eng seeds snap
            (Alert_imported (isPrivate newKey) (primaryUserId newKey) (slice_last 8 (keyId newKey)))
            (keys snap @ [newKey]) h)"

text \<open>
  The three messages of \<open>getDecryptedPrivateKeyArmored\<close>, around \<open>keyId.slice(-8)\<close>:
  "the passphrase of key ... is needed", "the passphrase of key ... is wrong" (it holds
  the needle \<open>PASSWORD_ERROR_MARK\<close>) and "decrypting key ... failed".
\<close>

definition MSG_KEY_NEEDS_PASSPHRASE :: "jsstring \<Rightarrow> jsstring" where
  "MSG_KEY_NEEDS_PASSPHRASE id8 =
     [0x9700, 0x8981, 0x5BC6, 0x94A5, 0x0020] @ id8 @ [0x0020, 0x7684, 0x5BC6, 0x7801, 0x3002]"

definition MSG_KEY_WRONG_PASSPHRASE :: "jsstring \<Rightarrow> jsstring" where
  "MSG_KEY_WRONG_PASSPHRASE id8 =
     [0x5BC6, 0x94A5, 0x0020] @ id8 @ [0x0020, 0x7684, 0x5BC6, 0x7801, 0x9519, 0x8BEF, 0x3002]"

definition MSG_KEY_DECRYPT_FAILED :: "jsstring \<Rightarrow> jsstring" where
  "MSG_KEY_DECRYPT_FAILED id8 =
     [0x89E3, 0x5BC6, 0x5BC6, 0x94A5, 0x0020] @ id8 @ [0x0020, 0x5931, 0x8D25, 0x3002]"

text \<open>
  \<open>passphrase\<close> is optional: \<open>None\<close> is \<open>undefined\<close>, and \<open>!passphrase\<close> holds for
  \<open>undefined\<close> and for the empty string.
\<close>

definition getDecryptedPrivateKeyArmored ::
  "engine \<Rightarrow> pgpkey list \<Rightarrow> jsstring \<Rightarrow> jsstring option \<Rightarrow> thrown + jsstring option" where
  "getDecryptedPrivateKeyArmored eng ks kid passphrase =
     (case find (\<lambda>k. keyId k = kid \<and> isPrivate k) ks of
        None \<Rightarrow> Inr None
      | Some key \<Rightarrow>
          if \<not> ko_isPrivate (keyObject key) then Inr None
          else if \<not> ko_isDecrypted (keyObject key) then
            (case passphrase of
               None \<Rightarrow> Inl (Error (MSG_KEY_NEEDS_PASSPHRASE (slice_last 8 kid)))
             | Some pp \<Rightarrow>
                 if pp = [] then Inl (Error (MSG_KEY_NEEDS_PASSPHRASE (slice_last 8 kid)))
                 else (case decryptKey eng (keyObject key) pp of
                         Inr decryptedKeyObject \<Rightarrow> Inr (Some (ko_armor decryptedKeyObject))
                       | Inl error \<Rightarrow>
                           if (case error of
                                 Error m \<Rightarrow> str_includes m (ascii ''password'')
                                            \<or> str_includes m (ascii ''Passphrase'')
                               | Non_error \<Rightarrow> False)
                           then Inl (Error (MSG_KEY_WRONG_PASSPHRASE (slice_last 8 kid)))
                           else Inl (Error (MSG_KEY_DECRYPT_FAILED (slice_last 8 kid)))))
          else Inr (Some (ko_armor (keyObject key))))"

section \<open>The message operations of the engine\<close>

datatype sign_mode = Cleartext | Detached

text \<open>
  A parsed \<open>openpgp.Message\<close>: the hexadecimal forms of \<open>getEncryptionKeyIDs()\<close> and
  the armored text it was read from.
\<close>

record pgp_message =
  msg_encryptionKeyIDs :: "jsstring list"
  msg_armored :: jsstring

text \<open>
  \<^item> \<open>readMessage armored\<close>.
  \<^item> \<open>decrypt_msg message decryptionKeys\<close>: \<open>decrypt\<close> with private keys; the result
    is the data and the list of signatures (opaque).
  \<^item> \<open>signature_info data signature publicKeys\<close>: the text that the verification block
    of \<open>handleDecryptAttempt\<close> computes for the first signature.  The block has its own
    \<open>catch\<close> and never throws; it writes \<open>signatureInfo\<close> and \<open>isLoading\<close> only.
  \<^item> \<open>sign_msg text key mode\<close>: \<open>createMessage\<close> followed by \<open>sign\<close>.
\<close>

record message_engine =
  readMessage :: "jsstring \<Rightarrow> thrown + pgp_message"
  decrypt_msg :: "pgp_message \<Rightarrow> key_object list \<Rightarrow> thrown + jsstring \<times> nat list"
  signature_info :: "jsstring \<Rightarrow> nat \<Rightarrow> key_object list \<Rightarrow> jsstring"
  sign_msg :: "jsstring \<Rightarrow> key_object \<Rightarrow> sign_mode \<Rightarrow> thrown + jsstring"

section \<open>What the two components share\<close>

text \<open>The texts that the components display through \<open>setError\<close>, with their spliced values.\<close>

datatype ui_error =
    Err_empty_input
  | Err_no_key_selected
  | Err_invalid_key
  | Err_internal_context
  | Err_internal_key
  | Err_key_passphrase jsstring
  | Err_with_passphrase jsstring
  | Err_cancelled
  | Err_message jsstring
  | Err_need_passphrase
  | Err_no_private_key
  | Err_decrypt_failed jsstring
  | Err_process_failed jsstring
  | Err_no_matching_key
  | Err_retry_failed jsstring jsstring

text \<open>The white space and line terminators that \<open>String.prototype.trim\<close> removes.\<close>

definition js_whitespace :: "nat \<Rightarrow> bool" where
  "js_whitespace c =
     (c \<in> {0x09, 0x0A, 0x0B, 0x0C, 0x0D, 0x20, 0xA0, 0x1680, 0x2028, 0x2029, 0x202F, 0x205F,
            0x3000, 0xFEFF}
      \<or> (0x2000 \<le> c \<and> c \<le> 0x200A))"

text \<open>\<open>!s.trim()\<close>\<close>

definition blank :: "jsstring \<Rightarrow> bool" where
  "blank s = list_all js_whitespace s"

text \<open>\<open>err.message\<close> spliced into a text; a value without that property gives \<open>undefined\<close>.\<close>

definition message_of :: "thrown \<Rightarrow> jsstring" where
  "message_of t = (case t of Error m \<Rightarrow> m | Non_error \<Rightarrow> ascii ''undefined'')"

text \<open>
  The test that both \<open>handleKeyPasswordSubmit\<close> handlers make on the message of a caught
  error.
\<close>

definition mentions_passphrase :: "jsstring \<Rightarrow> bool" where
  "mentions_passphrase m =
     (str_includes m PASSWORD_ERROR_MARK \<or> str_includes m (ascii ''Passphrase''))"

text \<open>The prop \<open>getDecryptedPrivateKeyArmored\<close> that \<open>Home\<close> hands to both components.\<close>

type_synonym unlock_prop = "jsstring \<Rightarrow> jsstring option \<Rightarrow> thrown + jsstring option"

section \<open>\<open>src/components/SignMessage.tsx\<close>\<close>

text \<open>The state of the component (its \<open>useState\<close> cells), with the prefix \<open>sg_\<close>.\<close>

record sign_state =
  sg_plaintext :: jsstring
  sg_signedMessageOutput :: jsstring
  sg_selectedPrivateKeyId :: jsstring
  sg_signMode :: sign_mode
  sg_isLoading :: bool
  sg_error :: "ui_error option"
  sg_showKeyPasswordModal :: bool
  sg_keyIdRequiringPassword :: "jsstring option"
  sg_dataToSign :: "jsstring option"

text \<open>
  The \<open>useEffect\<close> of the component, which runs when \<open>privateKeys\<close> or the selection
  changes.  Its tests read the selection of the render: an empty key list clears the
  selection; otherwise an empty selection, or one that names no key of the list, becomes
  the first key.
\<close>

definition sign_keysEffect :: "pgpkey list \<Rightarrow> sign_state \<Rightarrow> sign_state" where
  "sign_keysEffect privateKeys st =
     (case privateKeys of
        [] \<Rightarrow> st\<lparr>sg_selectedPrivateKeyId := []\<rparr>
      | first # others \<Rightarrow>
          if sg_selectedPrivateKeyId st = []
             \<or> \<not> list_ex (\<lambda>k. keyId k = sg_selectedPrivateKeyId st) privateKeys
          then st\<lparr>sg_selectedPrivateKeyId := keyId first\<rparr>
          else st)"

text \<open>The prefix of the error that \<open>performSign\<close> throws ("the signing operation failed: ").\<close>

definition MSG_SIGN_FAILED :: jsstring where
  "MSG_SIGN_FAILED = [0x7B7E, 0x540D, 0x64CD, 0x4F5C, 0x5931, 0x8D25, 0x003A, 0x0020]"

text \<open>"The key cannot be decrypted with the given passphrase."\<close>

definition MSG_CANNOT_UNLOCK :: jsstring where
  "MSG_CANNOT_UNLOCK =
     [0x65E0, 0x6CD5, 0x4F7F, 0x7528, 0x63D0, 0x4F9B, 0x7684, 0x5BC6, 0x7801, 0x89E3, 0x5BC6,
      0x5BC6, 0x94A5, 0x3002]"

definition performSign ::
  "message_engine \<Rightarrow> jsstring \<Rightarrow> key_object \<Rightarrow> sign_mode \<Rightarrow> sign_state \<Rightarrow> thrown + sign_state" where
  "performSign meng textToSign unlockedPrivateKeyObject mode st =
     (case sign_msg meng textToSign unlockedPrivateKeyObject mode of
        Inr signed \<Rightarrow> Inr (st\<lparr>sg_signedMessageOutput := signed, sg_error := None\<rparr>)
      | Inl signError \<Rightarrow> Inl (Error (MSG_SIGN_FAILED @ message_of signError)))"

definition handleSignClick :: "message_engine \<Rightarrow> pgpkey list \<Rightarrow> sign_state \<Rightarrow> sign_state" where
  "handleSignClick meng privateKeys st =
     (if blank (sg_plaintext st) then st\<lparr>sg_error := Some Err_empty_input\<rparr>
      else if sg_selectedPrivateKeyId st = [] then st\<lparr>sg_error := Some Err_no_key_selected\<rparr>
      else
        (case find (\<lambda>k. keyId k = sg_selectedPrivateKeyId st) privateKeys of
           None \<Rightarrow> st\<lparr>sg_error := Some Err_invalid_key\<rparr>
         | Some selectedKey \<Rightarrow>
             if \<not> ko_isPrivate (keyObject selectedKey) then st\<lparr>sg_error := Some Err_invalid_key\<rparr>
             else
               (let st1 = st\<lparr>sg_isLoading := True, sg_error := None, sg_signedMessageOutput := [],
                              sg_dataToSign := None, sg_keyIdRequiringPassword := None\<rparr>
                in if ko_isDecrypted (keyObject selectedKey) then
                     (case performSign meng (sg_plaintext st) (keyObject selectedKey)
                             (sg_signMode st) st1 of
                        Inr st2 \<Rightarrow> st2\<lparr>sg_isLoading := False\<rparr>
                      | Inl err \<Rightarrow>
                          st1\<lparr>sg_error := Some (Err_message (message_of err)),
                              sg_isLoading := False\<rparr>)
                   else st1\<lparr>sg_dataToSign := Some (sg_plaintext st),
                            sg_keyIdRequiringPassword :=
                              Some (slice_last 16 (sg_selectedPrivateKeyId st)),
                            sg_showKeyPasswordModal := True,
                            sg_isLoading := False\<rparr>)))"

text \<open>
  The \<open>try\<close> block of \<open>handleKeyPasswordSubmit\<close>.  The declared type of
  \<open>readPrivateKey\<close> has no null; a null key object would make \<open>performSign\<close> throw its
  error around a \<open>TypeError\<close>.
\<close>

definition sign_with_password ::
  "message_engine \<Rightarrow> engine \<Rightarrow> unlock_prop \<Rightarrow> jsstring \<Rightarrow> jsstring \<Rightarrow> sign_state
     \<Rightarrow> thrown + sign_state" where
  "sign_with_password meng eng getDecrypted password data st =
     (case getDecrypted (sg_selectedPrivateKeyId st) (Some password) of
        Inl error \<Rightarrow> Inl error
      | Inr decryptedArmored \<Rightarrow>
          if falsy decryptedArmored then Inl (Error MSG_CANNOT_UNLOCK)
          else
            (case readPrivateKey eng (the decryptedArmored) of
               Parse_throws error \<Rightarrow> Inl error
             | Parsed_null \<Rightarrow> Inl (Error (MSG_SIGN_FAILED @ ascii ''TypeError''))
             | Parsed unlockedKeyObject \<Rightarrow>
                 performSign meng data unlockedKeyObject (sg_signMode st) st))"

text \<open>\<open>handleKeyPasswordSubmit\<close> of \<open>SignMessage\<close>.\<close>

definition sign_handleKeyPasswordSubmit ::
  "message_engine \<Rightarrow> engine \<Rightarrow> pgpkey list \<Rightarrow> unlock_prop \<Rightarrow> jsstring \<Rightarrow> sign_state
     \<Rightarrow> sign_state" where
  "sign_handleKeyPasswordSubmit meng eng privateKeys getDecrypted password st =
     (if falsy (sg_dataToSign st) \<or> sg_selectedPrivateKeyId st = []
      then st\<lparr>sg_error := Some Err_internal_context, sg_showKeyPasswordModal := False\<rparr>
      else
        (case find (\<lambda>k. keyId k = sg_selectedPrivateKeyId st) privateKeys of
           None \<Rightarrow> st\<lparr>sg_error := Some Err_internal_key, sg_showKeyPasswordModal := False\<rparr>
         | Some selectedKey \<Rightarrow>
             (let st1 = st\<lparr>sg_showKeyPasswordModal := False, sg_isLoading := True,
                            sg_error := None\<rparr>;
                  st2 =
                    (case sign_with_password meng eng getDecrypted password
                            (the (sg_dataToSign st)) st1 of
                       Inr st' \<Rightarrow> st'
                     | Inl (Error m) \<Rightarrow>
                         if mentions_passphrase m
                         then st1\<lparr>sg_error :=
                                   Some (Err_key_passphrase
                                           (slice_last 8 (sg_selectedPrivateKeyId st)))\<rparr>
                         else st1\<lparr>sg_error := Some (Err_with_passphrase m)\<rparr>
                     | Inl Non_error \<Rightarrow> st1)
              in st2\<lparr>sg_dataToSign := None, sg_keyIdRequiringPassword := None,
                     sg_isLoading := False\<rparr>)))"

text \<open>The \<open>onClose\<close> of the passphrase modal of \<open>SignMessage\<close>.\<close>

definition sign_onClose :: "sign_state \<Rightarrow> sign_state" where
  "sign_onClose st =
     st\<lparr>sg_showKeyPasswordModal := False, sg_error := Some Err_cancelled,
        sg_dataToSign := None, sg_keyIdRequiringPassword := None, sg_isLoading := False\<rparr>"

section \<open>\<open>src/components/DecryptMessage.tsx\<close>\<close>

text \<open>The state of the component, with the prefix \<open>dc_\<close>.\<close>

datatype signature_text = Sig_unsigned | Sig_text jsstring

record decrypt_state =
  dc_ciphertext :: jsstring
  dc_plaintext :: jsstring
  dc_signatureInfo :: "signature_text option"
  dc_isLoading :: bool
  dc_error :: "ui_error option"
  dc_showKeyPasswordModal :: bool
  dc_keyIdRequiringPassword :: "jsstring option"
  dc_messageToDecrypt :: "pgp_message option"

text \<open>The end of the hint for several recipients (" or others").\<close>

definition OR_OTHERS :: jsstring where
  "OR_OTHERS = [0x0020, 0x6216, 0x5176, 0x4ED6]"

text \<open>"There is no private key to try the decryption with."\<close>

definition MSG_NO_PRIVATE_KEYS :: jsstring where
  "MSG_NO_PRIVATE_KEYS =
     [0x6CA1, 0x6709, 0x53EF, 0x7528, 0x7684, 0x79C1, 0x94A5, 0x6765, 0x5C1D, 0x8BD5, 0x89E3,
      0x5BC6, 0x3002]"

definition keyIdHint_of :: "pgpkey list \<Rightarrow> jsstring list \<Rightarrow> jsstring" where
  "keyIdHint_of potentialKeys keyIDsInMessage =
     (case potentialKeys of
        [k] \<Rightarrow> slice_last 16 (keyId k)
      | _ \<Rightarrow>
          (case keyIDsInMessage of
             [] \<Rightarrow> ascii ''Unknown Key''
           | first # others \<Rightarrow>
               slice_last 16 first @ (if others \<noteq> [] then OR_OTHERS else [])))"

text \<open>
  \<open>handleDecryptAttempt\<close>.  Its \<open>catch\<close> reads \<open>decryptError.message.includes\<close>, which
  throws a \<open>TypeError\<close> when the caught value has no message.
\<close>

definition handleDecryptAttempt ::
  "message_engine \<Rightarrow> pgpkey list \<Rightarrow> key_object list \<Rightarrow> pgp_message \<Rightarrow> key_object list
     \<Rightarrow> decrypt_state \<Rightarrow> thrown + decrypt_state" where
  "handleDecryptAttempt meng privateKeys publicKeys parsedMessage decryptionKeysAttempt st =
     (case decrypt_msg meng parsedMessage decryptionKeysAttempt of
        Inr (decryptedData, signatures) \<Rightarrow>
          (case signatures of
             [] \<Rightarrow> Inr (st\<lparr>dc_plaintext := decryptedData,
                          dc_signatureInfo := Some Sig_unsigned,
                          dc_error := None\<rparr>)
           | sg # others \<Rightarrow>
               Inr (st\<lparr>dc_plaintext := decryptedData,
                       dc_signatureInfo :=
                         Some (Sig_text (signature_info meng decryptedData sg publicKeys)),
                       dc_isLoading := False,
                       dc_error := None\<rparr>))
      | Inl Non_error \<Rightarrow> Inl (Error (ascii ''TypeError''))
      | Inl (Error m) \<Rightarrow>
          if str_includes m (ascii ''private key is encrypted'')
             \<or> str_includes m (ascii ''Passphrase required'')
          then
            (let keyIDsInMessage = msg_encryptionKeyIDs parsedMessage;
                 potentialKeys = filter (\<lambda>pk. keyId pk \<in> set keyIDsInMessage) privateKeys
             in Inr (st\<lparr>dc_error := Some Err_need_passphrase,
                        dc_messageToDecrypt := Some parsedMessage,
                        dc_keyIdRequiringPassword :=
                          Some (keyIdHint_of potentialKeys keyIDsInMessage),
                        dc_showKeyPasswordModal := True,
                        dc_isLoading := False\<rparr>))
          else if str_includes m (ascii ''No private key available'')
          then Inr (st\<lparr>dc_error := Some Err_no_private_key, dc_isLoading := False\<rparr>)
          else Inr (st\<lparr>dc_error := Some (Err_decrypt_failed m), dc_isLoading := False\<rparr>))"

definition handleDecryptClick ::
  "message_engine \<Rightarrow> pgpkey list \<Rightarrow> key_object list \<Rightarrow> decrypt_state \<Rightarrow> decrypt_state" where
  "handleDecryptClick meng privateKeys publicKeys st =
     (if blank (dc_ciphertext st) then st\<lparr>dc_error := Some Err_empty_input\<rparr>
      else
        (let st1 = st\<lparr>dc_isLoading := True, dc_error := None, dc_plaintext := [],
                       dc_signatureInfo := None, dc_messageToDecrypt := None,
                       dc_keyIdRequiringPassword := None\<rparr>
         in case (case readMessage meng (dc_ciphertext st) of
                    Inl error \<Rightarrow> Inl error
                  | Inr parsedMessage \<Rightarrow>
                      (let privateKeyObjects = map keyObject privateKeys
                       in if privateKeyObjects = [] then Inl (Error MSG_NO_PRIVATE_KEYS)
                          else handleDecryptAttempt meng privateKeys publicKeys parsedMessage
                                 privateKeyObjects st1)) of
              Inr st2 \<Rightarrow> st2
            | Inl err \<Rightarrow>
                st1\<lparr>dc_error := Some (Err_process_failed (message_of err)),
                    dc_isLoading := False\<rparr>))"

text \<open>
  The loop of \<open>handleKeyPasswordSubmit\<close> over \<open>potentialKeys\<close>.  The first component of
  the result is the error with which the handler stops when the \<open>catch\<close> of the loop
  itself throws (\<open>unlockOrRetryError.message.includes\<close> on a value without message);
  the statements after the loop are not reached then.
\<close>

fun retry_loop ::
  "message_engine \<Rightarrow> engine \<Rightarrow> pgpkey list \<Rightarrow> key_object list \<Rightarrow> unlock_prop \<Rightarrow> pgp_message
     \<Rightarrow> jsstring \<Rightarrow> pgpkey list \<Rightarrow> decrypt_state \<Rightarrow> thrown option \<times> decrypt_state" where
  "retry_loop meng eng privateKeys publicKeys getDecrypted msg password [] st = (None, st)"
| "retry_loop meng eng privateKeys publicKeys getDecrypted msg password (targetKey # rest) st =
     (case (case getDecrypted (keyId targetKey) (Some password) of
              Inl error \<Rightarrow> Inl error
            | Inr decryptedArmored \<Rightarrow>
                if falsy decryptedArmored then Inr None
                else
                  (case readPrivateKey eng (the decryptedArmored) of
                     Parse_throws error \<Rightarrow> Inl error
                   | Parsed_null \<Rightarrow> Inl (Error (ascii ''TypeError''))
                   | Parsed unlockedKeyObject \<Rightarrow>
                       (case handleDecryptAttempt meng privateKeys publicKeys msg
                               [unlockedKeyObject] st of
                          Inl error \<Rightarrow> Inl error
                        | Inr st' \<Rightarrow> Inr (Some st')))) of
        Inr (Some st') \<Rightarrow> (None, st')
      | Inr None \<Rightarrow>
          retry_loop meng eng privateKeys publicKeys getDecrypted msg password rest st
      | Inl (Error m) \<Rightarrow>
          retry_loop meng eng privateKeys publicKeys getDecrypted msg password rest
            (st\<lparr>dc_error :=
                  Some (if mentions_passphrase m
                        then Err_key_passphrase (slice_last 8 (keyId targetKey))
                        else Err_retry_failed (slice_last 8 (keyId targetKey)) m)\<rparr>)
      | Inl Non_error \<Rightarrow> (Some (Error (ascii ''TypeError'')), st))"

text \<open>\<open>handleKeyPasswordSubmit\<close> of \<open>DecryptMessage\<close>.\<close>

definition decrypt_handleKeyPasswordSubmit ::
  "message_engine \<Rightarrow> engine \<Rightarrow> pgpkey list \<Rightarrow> key_object list \<Rightarrow> unlock_prop \<Rightarrow> jsstring
     \<Rightarrow> decrypt_state \<Rightarrow> thrown option \<times> decrypt_state" where
  "decrypt_handleKeyPasswordSubmit meng eng privateKeys publicKeys getDecrypted password st =
     (case dc_messageToDecrypt st of
        None \<Rightarrow>
          (None, st\<lparr>dc_error := Some Err_internal_context, dc_showKeyPasswordModal := False\<rparr>)
      | Some messageToDecrypt \<Rightarrow>
          if falsy (dc_keyIdRequiringPassword st)
          then (None, st\<lparr>dc_error := Some Err_internal_context,
                         dc_showKeyPasswordModal := False\<rparr>)
          else
            (let st1 = st\<lparr>dc_showKeyPasswordModal := False, dc_isLoading := True,
                           dc_error := None\<rparr>;
                 keyIDsInMessage = msg_encryptionKeyIDs messageToDecrypt;
                 potentialKeys = filter (\<lambda>pk. keyId pk \<in> set keyIDsInMessage) privateKeys
             in if potentialKeys = []
                then (None, st1\<lparr>dc_error := Some Err_no_matching_key, dc_isLoading := False\<rparr>)
                else
                  (case retry_loop meng eng privateKeys publicKeys getDecrypted messageToDecrypt
                          password potentialKeys st1 of
                     (Some error, st2) \<Rightarrow> (Some error, st2)
                   | (None, st2) \<Rightarrow>
                       (None, st2\<lparr>dc_messageToDecrypt := None,
                                  dc_keyIdRequiringPassword := None,
                                  dc_isLoading := False\<rparr>))))"

text \<open>The \<open>onClose\<close> of the passphrase modal of \<open>DecryptMessage\<close>.\<close>

definition decrypt_onClose :: "decrypt_state \<Rightarrow> decrypt_state" where
  "decrypt_onClose st =
     st\<lparr>dc_showKeyPasswordModal := False, dc_error := Some Err_cancelled,
        dc_messageToDecrypt := None, dc_keyIdRequiringPassword := None,
        dc_isLoading := False\<rparr>"

section \<open>Assumptions on the engine\<close>

text \<open>
  What the application relies on from the symmetric primitive of the engine: a
  ciphertext opens under the password that made it, it does not open under any other
  password, and an armored message is never the empty string.  Nothing is assumed on the
  text of the error with which a wrong password is refused.
\<close>

definition wrapped_under :: "engine \<Rightarrow> jsstring \<Rightarrow> jsstring \<Rightarrow> jsstring \<Rightarrow> bool" where
  "wrapped_under eng c P W = (\<exists>seed. encrypt_sym eng seed P W = Inr c)"

definition round_trip :: "engine \<Rightarrow> bool" where
  "round_trip eng =
     (\<forall>c P W. wrapped_under eng c P W \<longrightarrow> decrypt_sym eng c W = Decrypted_string P)"

definition wrong_password_refused :: "engine \<Rightarrow> bool" where
  "wrong_password_refused eng =
     (\<forall>c P W W2 s. wrapped_under eng c P W \<longrightarrow> W2 \<noteq> W \<longrightarrow>
        decrypt_sym eng c W2 \<noteq> Decrypted_string s)"

definition armor_nonempty :: "engine \<Rightarrow> bool" where
  "armor_nonempty eng = (\<forall>c P W. wrapped_under eng c P W \<longrightarrow> c \<noteq> [])"

section \<open>A small engine\<close>

text \<open>
  An engine small enough to run by hand.  A ciphertext is the seed, the length of the
  password, the password and the plaintext; an armored key is a kind (\<open>P\<close> for a public
  key, \<open>S\<close> for a private one) followed by the key id.  It meets the three assumptions
  above and serves for the concrete runs below.
\<close>

definition toy_key :: "bool \<Rightarrow> jsstring \<Rightarrow> jsstring \<Rightarrow> key_object" where
  "toy_key priv kid a =
     \<lparr> ko_keyID = kid, ko_primaryUser = Inr (Some kid), ko_userIDs = [Some kid],
       ko_creationTime = Date 0, ko_isPrivate = priv, ko_isDecrypted = True, ko_armor = a \<rparr>"

definition toy_decrypt :: "jsstring \<Rightarrow> jsstring \<Rightarrow> decrypt_outcome" where
  "toy_decrypt c W =
     (case c of
        seed # n # rest \<Rightarrow>
          if n = length W \<and> take n rest = W then Decrypted_string (drop n rest)
          else Decrypt_throws (Error (ascii ''Incorrect password''))
      | _ \<Rightarrow> Decrypt_throws (Error (ascii ''Misformed armored text'')))"

definition toy_readKey :: "jsstring \<Rightarrow> parse_outcome" where
  "toy_readKey a =
     (case a of
        kind # kid \<Rightarrow>
          if kind = of_char CHR ''P'' then Parsed (toy_key False kid a)
          else if kind = of_char CHR ''S'' then Parsed (toy_key True kid a)
          else Parse_throws (Error (ascii ''Misformed armored text''))
      | [] \<Rightarrow> Parse_throws (Error (ascii ''Misformed armored text'')))"

definition toy_readPrivateKey :: "jsstring \<Rightarrow> parse_outcome" where
  "toy_readPrivateKey a =
     (case a of
        kind # kid \<Rightarrow>
          if kind = of_char CHR ''S'' then Parsed (toy_key True kid a)
          else Parse_throws (Error (ascii ''Armored text not of type private key''))
      | [] \<Rightarrow> Parse_throws (Error (ascii ''Misformed armored text'')))"

definition toy_engine :: engine where
  "toy_engine =
     \<lparr> encrypt_sym = (\<lambda>seed P W. Inr (seed # length W # W @ P)),
       decrypt_sym = toy_decrypt,
       readKey = toy_readKey,
       readPrivateKey = toy_readPrivateKey,
       decryptKey = (\<lambda>k pp. if pp = ascii ''pass'' then Inr (k\<lparr>ko_isDecrypted := True\<rparr>)
                             else Inl (Error (ascii ''Incorrect key passphrase''))) \<rparr>"

text \<open>
  The same engine with the texts of the errors that OpenPGP.js, the library behind
  \<open>openpgp\<close>, gives for the symmetric primitive: a wrong password is refused with
  \<open>Error decrypting message: Session key decryption failed.\<close> and a text that is no
  message with \<open>Misformed armored text\<close>.  The library is not part of the repository.
\<close>

definition library_decrypt :: "jsstring \<Rightarrow> jsstring \<Rightarrow> decrypt_outcome" where
  "library_decrypt c W =
     (case c of
        seed # n # rest \<Rightarrow>
          if n = length W \<and> take n rest = W then Decrypted_string (drop n rest)
          else Decrypt_throws
                 (Error (ascii ''Error decrypting message: Session key decryption failed.''))
      | _ \<Rightarrow> Decrypt_throws (Error (ascii ''Misformed armored text'')))"

definition library_text_engine :: engine where
  "library_text_engine = toy_engine\<lparr>decrypt_sym := library_decrypt\<rparr>"

section \<open>Notions of the specification and sample data\<close>

text \<open>
  A stored record whose data is corrupted, for a load under \<open>pw\<close>: its data does not
  parse as a key, or (for a private record) its decryption fails otherwise than by a
  password failure.
\<close>

definition corrupted :: "engine \<Rightarrow> jsstring \<Rightarrow> stored_key \<Rightarrow> bool" where
  "corrupted eng pw r =
     (if sk_type r = ascii ''private''
      then (case decrypt_sym eng (sk_data r) pw of
              Decrypted_string a \<Rightarrow>
                (case readPrivateKey eng a of Parse_throws e \<Rightarrow> True | _ \<Rightarrow> False)
            | Decrypted_other \<Rightarrow> True
            | Decrypt_throws t \<Rightarrow> \<not> reports_password_failure t)
      else (case readKey eng (sk_data r) of Parse_throws e \<Rightarrow> True | _ \<Rightarrow> False))"

text \<open>
  Sample records for the small engine: a public record, a private record wrapped under
  the password \<open>w\<close>, a public record whose data is not a key, and a record stored as
  public whose data is an armored private key.
\<close>

definition sample_public :: stored_key where
  "sample_public =
     \<lparr> sk_keyId = ascii ''aa'', sk_type = ascii ''public'', sk_data = ascii ''Paa'',
       sk_userIds = [ascii ''aa''], sk_primaryUserId = ascii ''aa'', sk_creationTime = 0 \<rparr>"

definition sample_private :: stored_key where
  "sample_private =
     \<lparr> sk_keyId = ascii ''bb'', sk_type = ascii ''private'',
       sk_data = 7 # 1 # ascii ''w'' @ ascii ''Sbb'',
       sk_userIds = [ascii ''bb''], sk_primaryUserId = ascii ''bb'', sk_creationTime = 0 \<rparr>"

definition sample_corrupt :: stored_key where
  "sample_corrupt =
     \<lparr> sk_keyId = ascii ''cc'', sk_type = ascii ''public'', sk_data = ascii ''garbage'',
       sk_userIds = [ascii ''cc''], sk_primaryUserId = ascii ''cc'', sk_creationTime = 0 \<rparr>"

definition sample_mislabelled :: stored_key where
  "sample_mislabelled =
     \<lparr> sk_keyId = ascii ''dd'', sk_type = ascii ''public'', sk_data = ascii ''Sdd'',
       sk_userIds = [ascii ''dd''], sk_primaryUserId = ascii ''dd'', sk_creationTime = 0 \<rparr>"

definition sample_storage :: "stored_doc option \<Rightarrow> storage" where
  "sample_storage doc =
     \<lparr> keys_item = doc, verifier_item = Some (9 # 1 # ascii ''w'' @ VERIFIER_PLAINTEXT),
       quota_exceeded = False \<rparr>"

text \<open>A storage in which nothing has been stored yet.\<close>

definition empty_storage :: storage where
  "empty_storage = \<lparr> keys_item = None, verifier_item = None, quota_exceeded = False \<rparr>"

text \<open>The record that \<open>hydrate\<close> builds from a key of the small engine.\<close>

definition sample_key :: "bool \<Rightarrow> jsstring \<Rightarrow> jsstring \<Rightarrow> pgpkey" where
  "sample_key priv kid a =
     \<lparr> keyId = kid, armored = a, keyObject = toy_key priv kid a, userIds = [kid],
       primaryUserId = kid, isPrivate = priv, creationTime = Date 0 \<rparr>"

text \<open>A private key that is still locked by its passphrase.\<close>

definition sample_locked_key :: pgpkey where
  "sample_locked_key =
     (sample_key True (ascii ''aa'') (ascii ''Saa''))
       \<lparr> keyObject := (toy_key True (ascii ''aa'') (ascii ''Saa''))\<lparr>ko_isDecrypted := False\<rparr> \<rparr>"

text \<open>
  The initial state of \<open>SignMessage\<close>, with a text typed into the input and a key
  selected.
\<close>

definition sign_initial :: "jsstring \<Rightarrow> jsstring \<Rightarrow> sign_state" where
  "sign_initial t kid =
     \<lparr> sg_plaintext = t, sg_signedMessageOutput = [], sg_selectedPrivateKeyId = kid,
       sg_signMode = Cleartext, sg_isLoading = False, sg_error = None,
       sg_showKeyPasswordModal = False, sg_keyIdRequiringPassword = None,
       sg_dataToSign = None \<rparr>"

text \<open>A state of \<open>Home\<close> with the master password \<open>w\<close> in memory.\<close>

definition sample_home :: "pgpkey list \<Rightarrow> home" where
  "sample_home ks =
     \<lparr> keys = ks, masterPassword = Some (ascii ''w''), local = sample_storage None \<rparr>"

section \<open>Strings\<close>

lemma starts_with_prefix: "starts_with s n = prefix n s"
  by (induction s n rule: starts_with.induct) auto

lemma str_includes_sublist: "str_includes s n = sublist n s"
  by (induction s) (simp_all add: starts_with_prefix sublist_Cons_right)

lemma str_includes_append: "str_includes b n \<Longrightarrow> str_includes (a @ b @ c) n"
  unfolding str_includes_sublist
  by (meson sublist_appendI sublist_order.order.trans)

lemma wrong_password_marked: "is_password_error (Error MSG_WRONG_PASSWORD)"
  by (simp add: is_password_error_def MSG_WRONG_PASSWORD_def PASSWORD_ERROR_MARK_def)

lemma decrypt_failed_unmarked: "\<not> is_password_error (Error MSG_DECRYPT_FAILED)"
  by (simp add: is_password_error_def MSG_DECRYPT_FAILED_def PASSWORD_ERROR_MARK_def)

lemma load_failed_marked: "is_password_error (Error (MSG_LOAD_FAILED id8))"
proof -
  have "str_includes
          ([0x0020, 0x65F6, 0x4E3B, 0x5BC6, 0x7801, 0x9519, 0x8BEF, 0x6216, 0x6570, 0x636E, 0x635F,
            0x574F, 0x3002, 0x8BF7, 0x68C0, 0x67E5, 0x4E3B, 0x5BC6, 0x7801, 0x6216, 0x91CD, 0x7F6E,
            0x5E94, 0x7528, 0x3002] @ []) PASSWORD_ERROR_MARK"
    by (simp add: PASSWORD_ERROR_MARK_def)
  then show ?thesis
    unfolding is_password_error_def MSG_LOAD_FAILED_def
    using str_includes_append[of _ PASSWORD_ERROR_MARK "[0x52A0, 0x8F7D, 0x5BC6, 0x94A5, 0x0020] @ id8" "[]"]
    by simp
qed

lemma not_a_string_unreported:
  "\<not> reports_password_failure (Error (ascii ''Decrypted data is not a string.''))"
  by (simp add: reports_password_failure_def ascii_def)

lemma session_key_failure_unreported:
  "\<not> reports_password_failure
       (Error (ascii ''Error decrypting message: Session key decryption failed.''))"
  by (simp add: reports_password_failure_def ascii_def)

lemma misformed_unreported:
  "\<not> reports_password_failure (Error (ascii ''Misformed armored text''))"
  by (simp add: reports_password_failure_def ascii_def)

lemma messages_differ: "MSG_WRONG_PASSWORD \<noteq> MSG_DECRYPT_FAILED"
  by (simp add: MSG_WRONG_PASSWORD_def MSG_DECRYPT_FAILED_def)

section \<open>The small engine meets the assumptions\<close>

lemma toy_round_trip: "round_trip toy_engine"
  by (auto simp: round_trip_def wrapped_under_def toy_engine_def toy_decrypt_def)

lemma toy_wrong_password_refused: "wrong_password_refused toy_engine"
  by (auto simp: wrong_password_refused_def wrapped_under_def toy_engine_def toy_decrypt_def)

lemma toy_armor_nonempty: "armor_nonempty toy_engine"
  by (auto simp: armor_nonempty_def wrapped_under_def toy_engine_def)

lemma toy_wraps: "wrapped_under toy_engine (seed # length W # W @ P) P W"
  by (simp add: wrapped_under_def toy_engine_def)

lemma sample_private_wrapped:
  "wrapped_under toy_engine (sk_data sample_private) (ascii ''Sbb'') (ascii ''w'')"
  using toy_wraps[of 7 "ascii ''w''" "ascii ''Sbb''"]
  by (simp add: sample_private_def ascii_def)

lemma library_round_trip: "round_trip library_text_engine"
  by (auto simp: round_trip_def wrapped_under_def library_text_engine_def toy_engine_def
        library_decrypt_def)

lemma library_wrong_password_refused: "wrong_password_refused library_text_engine"
  by (auto simp: wrong_password_refused_def wrapped_under_def library_text_engine_def
        toy_engine_def library_decrypt_def)

lemma library_armor_nonempty: "armor_nonempty library_text_engine"
  by (auto simp: armor_nonempty_def wrapped_under_def library_text_engine_def toy_engine_def)

lemma library_sample_private_wrapped:
  "wrapped_under library_text_engine (sk_data sample_private) (ascii ''Sbb'') (ascii ''w'')"
proof -
  have "encrypt_sym library_text_engine 7 (ascii ''Sbb'') (ascii ''w'')
          = Inr (sk_data sample_private)"
    by (simp add: library_text_engine_def toy_engine_def sample_private_def ascii_def)
  then show ?thesis
    unfolding wrapped_under_def by blast
qed

lemma library_refuses_wrong_password:
  "decrypt_sym library_text_engine (sk_data sample_private) (ascii ''x'')
     = Decrypt_throws (Error (ascii ''Error decrypting message: Session key decryption failed.''))"
  by (simp add: library_text_engine_def toy_engine_def library_decrypt_def sample_private_def
        ascii_def)

lemma library_opens_sample_private:
  "decrypt_sym library_text_engine (sk_data sample_private) (ascii ''w'')
     = Decrypted_string (ascii ''Sbb'')"
  by (simp add: library_text_engine_def toy_engine_def library_decrypt_def sample_private_def
        ascii_def)

section \<open>decryptData\<close>

lemma decryptData_errors:
  "decryptData eng c pw = Inl e \<Longrightarrow> e = Error MSG_WRONG_PASSWORD \<or> e = Error MSG_DECRYPT_FAILED"
  by (auto simp: decryptData_def split: sum.splits if_splits)

lemma decryptData_round_trip:
  "round_trip eng \<Longrightarrow> wrapped_under eng c P W \<Longrightarrow> decryptData eng c W = Inr P"
  by (simp add: round_trip_def decryptData_def decryptData_try_def)

lemma decryptData_refused:
  assumes "wrong_password_refused eng" and "wrapped_under eng c P W" and "W2 \<noteq> W"
  shows "decryptData eng c W2 \<noteq> Inr s"
proof -
  from assms have "decrypt_sym eng c W2 \<noteq> Decrypted_string s'" for s'
    unfolding wrong_password_refused_def by blast
  then show ?thesis
    by (cases "decrypt_sym eng c W2")
       (auto simp: decryptData_def decryptData_try_def split: if_splits)
qed

lemma recognised_failure_is_wrong_password:
  "decrypt_sym eng c pw = Decrypt_throws t \<Longrightarrow> reports_password_failure t \<Longrightarrow>
   decryptData eng c pw = Inl (Error MSG_WRONG_PASSWORD)"
  by (simp add: decryptData_def decryptData_try_def)

text \<open>
  Claim C4 fails with the texts of the library.  A private record wrapped under \<open>w\<close> is
  opened under \<open>x\<close>: the engine refuses the wrong password, but the text of its error
  holds neither \<open>password\<close> nor \<open>Passphrase incorrect\<close>, the two needles of the
  \<open>catch\<close> of \<open>decryptData\<close>.  So \<open>decryptData\<close> throws its second error, the one it
  throws for a text that is no message at all, and the test of \<open>loadKeysFromStorage\<close> does
  not take it for a password error: the result does not tell a wrong password from
  corrupted data.
\<close>

theorem wrong_password_not_told_apart:
  "decrypt_sym library_text_engine (sk_data sample_private) (ascii ''x'')
     = Decrypt_throws (Error (ascii ''Error decrypting message: Session key decryption failed.''))
   \<and> decryptData library_text_engine (sk_data sample_private) (ascii ''w'') = Inr (ascii ''Sbb'')
   \<and> decryptData library_text_engine (sk_data sample_private) (ascii ''x'')
       = Inl (Error MSG_DECRYPT_FAILED)
   \<and> decryptData library_text_engine (ascii ''?'') (ascii ''x'') = Inl (Error MSG_DECRYPT_FAILED)
   \<and> \<not> is_password_error (Error MSG_DECRYPT_FAILED)"
proof (intro conjI)
  show "decrypt_sym library_text_engine (sk_data sample_private) (ascii ''x'')
     = Decrypt_throws (Error (ascii ''Error decrypting message: Session key decryption failed.''))"
    by (rule library_refuses_wrong_password)
  show "decryptData library_text_engine (sk_data sample_private) (ascii ''w'') = Inr (ascii ''Sbb'')"
    by (simp add: decryptData_def decryptData_try_def library_opens_sample_private)
  show "decryptData library_text_engine (sk_data sample_private) (ascii ''x'')
       = Inl (Error MSG_DECRYPT_FAILED)"
    using session_key_failure_unreported
    by (simp add: decryptData_def decryptData_try_def library_refuses_wrong_password)
  have "decrypt_sym library_text_engine (ascii ''?'') (ascii ''x'')
          = Decrypt_throws (Error (ascii ''Misformed armored text''))"
    by (simp add: library_text_engine_def toy_engine_def library_decrypt_def ascii_def)
  then show "decryptData library_text_engine (ascii ''?'') (ascii ''x'')
               = Inl (Error MSG_DECRYPT_FAILED)"
    using misformed_unreported
    by (simp add: decryptData_def decryptData_try_def)
  show "\<not> is_password_error (Error MSG_DECRYPT_FAILED)"
    by (rule decrypt_failed_unmarked)
qed

section \<open>The master password\<close>

lemma setMasterPassword_success:
  "setMasterPassword eng seed W st = (Inr u, st') \<Longrightarrow>
   \<exists>c. encrypt_sym eng seed VERIFIER_PLAINTEXT W = Inr c \<and> \<not> quota_exceeded st
       \<and> st' = st\<lparr>verifier_item := Some c\<rparr>"
  by (auto simp: setMasterPassword_def encryptData_def setItem_verifier_def
           split: sum.splits if_splits)

lemma verifyMasterPassword_iff:
  "verifyMasterPassword eng pw s =
     (\<exists>c. verifier_item s = Some c \<and> c \<noteq> [] \<and> decryptData eng c pw = Inr VERIFIER_PLAINTEXT)"
  by (auto simp: verifyMasterPassword_def split: option.splits sum.splits)

text \<open>
  Claim C3.  With an engine that opens what it has wrapped, opens nothing under another
  password and never gives an empty armored message, after \<open>setMasterPassword W\<close> has
  succeeded \<open>verifyMasterPassword W\<close> is true and \<open>verifyMasterPassword W2\<close> is false for
  every other password.  The text of the error with which the engine refuses a wrong
  password plays no part.  In every state of the storage, \<open>verifyMasterPassword\<close> is true
  exactly when a verifier is stored (a string that is not empty), \<open>decryptData\<close> opens
  it, and the plaintext is the marker; every failure of \<open>decryptData\<close> gives false.  When
  the engine does not open the empty string to the marker, the proviso on the empty string
  can be dropped.  The function returns a boolean and has no throwing branch.
\<close>

theorem verifier_correctness:
  assumes "round_trip eng" and "wrong_password_refused eng" and "armor_nonempty eng"
      and "setMasterPassword eng seed W st = (Inr (), st')"
  shows "verifyMasterPassword eng W st'
       \<and> (\<forall>W2. W2 \<noteq> W \<longrightarrow> \<not> verifyMasterPassword eng W2 st')
       \<and> (\<forall>pw s. verifyMasterPassword eng pw s =
            (\<exists>c. verifier_item s = Some c \<and> c \<noteq> []
                 \<and> decryptData eng c pw = Inr VERIFIER_PLAINTEXT))
       \<and> ((\<forall>pw. decryptData eng [] pw \<noteq> Inr VERIFIER_PLAINTEXT) \<longrightarrow>
            (\<forall>pw s. verifyMasterPassword eng pw s =
               (\<exists>c. verifier_item s = Some c
                    \<and> decryptData eng c pw = Inr VERIFIER_PLAINTEXT)))"
proof -
  from assms(4) obtain c where c: "encrypt_sym eng seed VERIFIER_PLAINTEXT W = Inr c"
    and st': "st' = st\<lparr>verifier_item := Some c\<rparr>"
    using setMasterPassword_success by blast
  from c have w: "wrapped_under eng c VERIFIER_PLAINTEXT W"
    unfolding wrapped_under_def by blast
  with assms(3) have ne: "c \<noteq> []"
    unfolding armor_nonempty_def by blast
  have "verifyMasterPassword eng W st'"
    using decryptData_round_trip[OF assms(1) w] ne st'
    by (simp add: verifyMasterPassword_iff)
  moreover have "\<forall>W2. W2 \<noteq> W \<longrightarrow> \<not> verifyMasterPassword eng W2 st'"
    using decryptData_refused[OF assms(2) w] st'
    by (simp add: verifyMasterPassword_iff)
  moreover have "(\<forall>pw. decryptData eng [] pw \<noteq> Inr VERIFIER_PLAINTEXT) \<longrightarrow>
            (\<forall>pw s. verifyMasterPassword eng pw s =
               (\<exists>c. verifier_item s = Some c
                    \<and> decryptData eng c pw = Inr VERIFIER_PLAINTEXT))"
    unfolding verifyMasterPassword_iff by metis
  ultimately show ?thesis
    using verifyMasterPassword_iff by blast
qed

text \<open>
  A run with the texts of the library, on a storage that holds no verifier yet: the
  password \<open>w\<close> is set, which stores a verifier; then \<open>w\<close> verifies and \<open>x\<close> does not.
\<close>

theorem verifier_correctness_witness:
  "setMasterPassword library_text_engine 9 (ascii ''w'') empty_storage
     = (Inr (), empty_storage\<lparr>verifier_item := Some (9 # 1 # ascii ''w'' @ VERIFIER_PLAINTEXT)\<rparr>)
   \<and> verifyMasterPassword library_text_engine (ascii ''w'')
       (empty_storage\<lparr>verifier_item := Some (9 # 1 # ascii ''w'' @ VERIFIER_PLAINTEXT)\<rparr>)
   \<and> \<not> verifyMasterPassword library_text_engine (ascii ''x'')
       (empty_storage\<lparr>verifier_item := Some (9 # 1 # ascii ''w'' @ VERIFIER_PLAINTEXT)\<rparr>)"
proof -
  have run: "setMasterPassword library_text_engine 9 (ascii ''w'') empty_storage
     = (Inr (), empty_storage\<lparr>verifier_item := Some (9 # 1 # ascii ''w'' @ VERIFIER_PLAINTEXT)\<rparr>)"
    by (simp add: setMasterPassword_def encryptData_def setItem_verifier_def
          library_text_engine_def toy_engine_def empty_storage_def ascii_def)
  have ne: "ascii ''x'' \<noteq> ascii ''w''"
    by (simp add: ascii_def)
  note vc = verifier_correctness[OF library_round_trip library_wrong_password_refused
      library_armor_nonempty run]
  from vc[THEN conjunct2, THEN conjunct1] ne
  have "\<not> verifyMasterPassword library_text_engine (ascii ''x'')
       (empty_storage\<lparr>verifier_item := Some (9 # 1 # ascii ''w'' @ VERIFIER_PLAINTEXT)\<rparr>)"
    by blast
  with run vc[THEN conjunct1] show ?thesis by blast
qed

text \<open>
  Claim C7, as amended.  \<open>setMasterPassword\<close> makes no test for an existing verifier:
  its outcome is the same whatever verifier is stored.  When the encryption and the write
  succeed it stores the new verifier in place of any old one.  It fails only when the
  encryption or the write fails, with its one generic error, and then the storage, an
  existing verifier included, is as before.
\<close>

theorem setMasterPassword_overwrites:
  "fst (setMasterPassword eng seed pw (st\<lparr>verifier_item := v\<rparr>))
     = fst (setMasterPassword eng seed pw st)
   \<and> (\<forall>c. encrypt_sym eng seed VERIFIER_PLAINTEXT pw = Inr c \<and> \<not> quota_exceeded st \<longrightarrow>
          setMasterPassword eng seed pw st = (Inr (), st\<lparr>verifier_item := Some c\<rparr>))
   \<and> (\<forall>e st'. setMasterPassword eng seed pw st = (Inl e, st') \<longrightarrow>
          e = Error MSG_SET_VERIFIER_FAILED \<and> st' = st
          \<and> ((\<exists>t. encrypt_sym eng seed VERIFIER_PLAINTEXT pw = Inl t) \<or> quota_exceeded st))"
  by (auto simp: setMasterPassword_def encryptData_def setItem_verifier_def
           split: sum.splits if_splits)

text \<open>
  Claim C7 as stated fails: with a verifier in the storage, \<open>setMasterPassword\<close>
  succeeds and the stored verifier is replaced.
\<close>

theorem setMasterPassword_replaces_verifier:
  "hasMasterPassword (sample_storage None)
   \<and> setMasterPassword toy_engine 3 (ascii ''new'') (sample_storage None)
       = (Inr (), (sample_storage None)
                    \<lparr>verifier_item := Some (3 # 3 # ascii ''new'' @ VERIFIER_PLAINTEXT)\<rparr>)
   \<and> verifier_item (sample_storage None) \<noteq> Some (3 # 3 # ascii ''new'' @ VERIFIER_PLAINTEXT)"
  by (simp add: hasMasterPassword_def setMasterPassword_def encryptData_def setItem_verifier_def
        toy_engine_def sample_storage_def ascii_def)

text \<open>
  A successful run with the small engine.
\<close>

theorem setMasterPassword_overwrites_witness:
  "setMasterPassword toy_engine 5 (ascii ''pw'') (sample_storage None)
     = (Inr (), (sample_storage None)
                  \<lparr>verifier_item := Some (5 # 2 # ascii ''pw'' @ VERIFIER_PLAINTEXT)\<rparr>)"
proof -
  have "encrypt_sym toy_engine 5 VERIFIER_PLAINTEXT (ascii ''pw'')
          = Inr (5 # 2 # ascii ''pw'' @ VERIFIER_PLAINTEXT)
        \<and> \<not> quota_exceeded (sample_storage None)"
    by (simp add: toy_engine_def sample_storage_def ascii_def)
  with setMasterPassword_overwrites[where eng = toy_engine and seed = 5 and pw = "ascii ''pw''"
         and st = "sample_storage None"]
  show ?thesis by blast
qed

section \<open>An unreadable collection\<close>

text \<open>
  Claim C9, as amended.  When the stored text is not empty and \<open>JSON.parse\<close> rejects
  it, or when it parses to something that is not an array, \<open>loadKeysFromStorage\<close>
  removes the key collection and the verifier and returns the empty list, with no error.
  The empty text is taken as no collection at all: the empty list is returned and nothing
  is removed.
\<close>

theorem unreadable_collection_cleared:
  "(keys_item st = Some Json_non_array \<or> (\<exists>t. t \<noteq> [] \<and> keys_item st = Some (Unparseable t)) \<longrightarrow>
      loadKeysFromStorage eng pw st = (Inr [], st\<lparr>keys_item := None, verifier_item := None\<rparr>))
   \<and> (keys_item st = Some (Unparseable []) \<longrightarrow> loadKeysFromStorage eng pw st = (Inr [], st))"
  by (auto simp: loadKeysFromStorage_def clearAllStoredKeys_def)

text \<open>
  Claim C9 as stated fails at the empty text, which \<open>JSON.parse\<close> rejects: the load
  returns the empty list, and the collection item and the verifier are still stored.
\<close>

theorem empty_collection_text_kept:
  "loadKeysFromStorage toy_engine (ascii ''w'') (sample_storage (Some (Unparseable [])))
     = (Inr [], sample_storage (Some (Unparseable [])))
   \<and> keys_item (sample_storage (Some (Unparseable []))) \<noteq> None
   \<and> verifier_item (sample_storage (Some (Unparseable []))) \<noteq> None"
  by (simp add: loadKeysFromStorage_def sample_storage_def)

text \<open>
  A run on a text that is not JSON.
\<close>

theorem unreadable_collection_cleared_witness:
  "loadKeysFromStorage toy_engine (ascii ''w'') (sample_storage (Some (Unparseable (ascii ''{bad''))))
     = (Inr [], \<lparr> keys_item = None, verifier_item = None, quota_exceeded = False \<rparr>)"
proof -
  have "\<exists>t. t \<noteq> [] \<and> keys_item (sample_storage (Some (Unparseable (ascii ''{bad''))))
              = Some (Unparseable t)"
    by (simp add: sample_storage_def ascii_def)
  with unreadable_collection_cleared[where st = "sample_storage (Some (Unparseable (ascii ''{bad'')))"
         and eng = toy_engine and pw = "ascii ''w''"]
  show ?thesis
    by (simp add: sample_storage_def)
qed

section \<open>Loading one stored key\<close>

lemma hydrate_fields:
  "hydrate a ko = Inr k \<Longrightarrow>
   armored k = a \<and> keyObject k = ko \<and> keyId k = ko_keyID ko
   \<and> isPrivate k = ko_isPrivate ko \<and> creationTime k = ko_creationTime ko"
  by (auto simp: hydrate_def Let_def split: sum.splits)

lemma loadKey_wrong_password:
  assumes "sk_type r = ascii ''private''"
      and "decrypt_sym eng (sk_data r) pw = Decrypt_throws t"
      and "reports_password_failure t"
  shows "loadKey eng pw r = Rethrow (Error (MSG_LOAD_FAILED (slice_last 8 (sk_keyId r))))"
  using assms wrong_password_marked
  by (simp add: loadKey_def loadKey_try_def decryptData_def decryptData_try_def)

lemma loadKey_rethrow_marked: "loadKey eng pw r = Rethrow e \<Longrightarrow> is_password_error e"
  by (auto simp: loadKey_def load_failed_marked split: sum.splits option.splits if_splits)

lemma loadKey_Loaded_iff:
  "loadKey eng pw r = Loaded k \<longleftrightarrow>
     (\<exists>a ko. (if sk_type r = ascii ''private''
              then decrypt_sym eng (sk_data r) pw = Decrypted_string a
                   \<and> readPrivateKey eng a = Parsed ko
              else a = sk_data r \<and> readKey eng a = Parsed ko)
             \<and> hydrate a ko = Inr k)"
  by (auto simp: loadKey_def loadKey_try_def decryptData_def decryptData_try_def
           split: if_splits decrypt_outcome.splits parse_outcome.splits sum.splits)

lemma corrupted_skipped: "corrupted eng pw r \<Longrightarrow> loadKey eng pw r = Skip"
  using decrypt_failed_unmarked not_a_string_unreported
  by (auto simp: corrupted_def loadKey_def loadKey_try_def decryptData_def decryptData_try_def
           split: if_splits decrypt_outcome.splits parse_outcome.splits)

section \<open>The loop of loadKeysFromStorage\<close>

lemma load_loop_aborts:
  assumes "Entry r \<in> set entries" and "loadKey eng pw r = Rethrow e0"
  shows "\<exists>e. load_loop eng pw entries acc = Inl e \<and> is_password_error e"
  using assms
proof (induction entries arbitrary: acc)
  case Nil
  then show ?case by simp
next
  case (Cons x entries)
  show ?case
  proof (cases x)
    case Invalid_entry
    with Cons show ?thesis by simp
  next
    case (Entry s)
    show ?thesis
    proof (cases "loadKey eng pw s")
      case Skip
      with Cons Entry show ?thesis by auto
    next
      case (Loaded k)
      with Cons Entry show ?thesis by auto
    next
      case (Rethrow e)
      with Entry show ?thesis by (simp add: loadKey_rethrow_marked)
    qed
  qed
qed

lemma load_loop_skip:
  "loadKey eng pw r = Skip \<Longrightarrow>
   load_loop eng pw (xs @ Entry r # ys) acc = load_loop eng pw (xs @ ys) acc"
proof (induction xs arbitrary: acc)
  case Nil
  then show ?case by simp
next
  case (Cons x xs)
  then show ?case
    by (cases x) (auto split: loop_step.splits)
qed

lemma load_loop_all_loaded:
  "list_all2 (\<lambda>r k. loadKey eng pw r = Loaded k) rs ks \<Longrightarrow>
   load_loop eng pw (map Entry rs) acc = Inr (acc @ ks)"
proof (induction rs arbitrary: ks acc)
  case Nil
  then show ?case by simp
next
  case (Cons r rs)
  then obtain k ks' where "ks = k # ks'" "loadKey eng pw r = Loaded k"
    "list_all2 (\<lambda>r k. loadKey eng pw r = Loaded k) rs ks'"
    by (auto simp: list_all2_Cons1)
  with Cons.IH[of ks' "acc @ [k]"] show ?case by simp
qed

lemma load_array:
  "loadKeysFromStorage eng pw (st\<lparr>keys_item := Some (Json_array entries)\<rparr>)
     = (load_loop eng pw entries [], st\<lparr>keys_item := Some (Json_array entries)\<rparr>)"
  by (simp add: loadKeysFromStorage_def)

lemma recognised_failure_aborts_load:
  assumes "keys_item st = Some (Json_array entries)"
      and "Entry r \<in> set entries"
      and "sk_type r = ascii ''private''"
      and "decrypt_sym eng (sk_data r) pw = Decrypt_throws t"
      and "reports_password_failure t"
  shows "\<exists>e. loadKeysFromStorage eng pw st = (Inl e, st) \<and> is_password_error e"
proof -
  from assms(3,4,5)
  have "loadKey eng pw r = Rethrow (Error (MSG_LOAD_FAILED (slice_last 8 (sk_keyId r))))"
    by (rule loadKey_wrong_password)
  with assms(2) obtain e where "load_loop eng pw entries [] = Inl e" "is_password_error e"
    using load_loop_aborts by blast
  with assms(1) show ?thesis
    by (simp add: loadKeysFromStorage_def)
qed

lemma unrecognised_failure_skipped:
  assumes "sk_type r = ascii ''private''"
      and "decrypt_sym eng (sk_data r) pw = Decrypt_throws t"
      and "\<not> reports_password_failure t"
  shows "loadKey eng pw r = Skip"
  using assms decrypt_failed_unmarked
  by (simp add: loadKey_def loadKey_try_def decryptData_def decryptData_try_def)

lemma toy_hydrate: "hydrate a (toy_key priv kid a) = Inr (sample_key priv kid a)"
  by (simp add: hydrate_def toy_key_def sample_key_def)

text \<open>
  Claim C1 fails with the texts of the library.  The collection holds a public record
  and a private record wrapped under \<open>w\<close>.  Under \<open>w\<close> both records are loaded.  Under
  \<open>x\<close> the engine refuses the private record, but the text of its error is not one that
  the \<open>catch\<close> of \<open>decryptData\<close> takes for a password failure; the error that reaches the
  \<open>catch\<close> of the loop does not carry the mark, the record is skipped, and the load
  returns the public record without throwing.
\<close>

theorem wrong_password_load_returns_records:
  "wrapped_under library_text_engine (sk_data sample_private) (ascii ''Sbb'') (ascii ''w'')
   \<and> loadKeysFromStorage library_text_engine (ascii ''w'')
       (sample_storage (Some (Json_array [Entry sample_public, Entry sample_private])))
     = (Inr [sample_key False (ascii ''aa'') (ascii ''Paa''),
             sample_key True (ascii ''bb'') (ascii ''Sbb'')],
        sample_storage (Some (Json_array [Entry sample_public, Entry sample_private])))
   \<and> loadKeysFromStorage library_text_engine (ascii ''x'')
       (sample_storage (Some (Json_array [Entry sample_public, Entry sample_private])))
     = (Inr [sample_key False (ascii ''aa'') (ascii ''Paa'')],
        sample_storage (Some (Json_array [Entry sample_public, Entry sample_private])))"
proof -
  have pub: "loadKey library_text_engine pw sample_public
               = Loaded (sample_key False (ascii ''aa'') (ascii ''Paa''))" for pw
    unfolding loadKey_Loaded_iff
    by (intro exI[of _ "ascii ''Paa''"] exI[of _ "toy_key False (ascii ''aa'') (ascii ''Paa'')"])
       (simp add: sample_public_def library_text_engine_def toy_engine_def toy_readKey_def
          toy_hydrate ascii_def)
  have priv: "loadKey library_text_engine (ascii ''w'') sample_private
               = Loaded (sample_key True (ascii ''bb'') (ascii ''Sbb''))"
    unfolding loadKey_Loaded_iff
    using library_opens_sample_private
    by (intro exI[of _ "ascii ''Sbb''"] exI[of _ "toy_key True (ascii ''bb'') (ascii ''Sbb'')"])
       (simp add: sample_private_def library_text_engine_def toy_engine_def
          toy_readPrivateKey_def toy_hydrate ascii_def)
  have "sk_type sample_private = ascii ''private''"
    by (simp add: sample_private_def)
  then have skipped: "loadKey library_text_engine (ascii ''x'') sample_private = Skip"
    using library_refuses_wrong_password session_key_failure_unreported
    by (rule unrecognised_failure_skipped)
  have item: "keys_item (sample_storage (Some d)) = Some d" for d
    by (simp add: sample_storage_def)
  show ?thesis
    using library_sample_private_wrapped
    by (simp add: loadKeysFromStorage_def item pub priv skipped)
qed

text \<open>
  Claim C8.  A corrupted record (its data does not parse as a key, or its decryption
  fails otherwise than by a password failure) is skipped, wherever it stands in the
  collection: the load returns what it returns for the collection without that record, and
  leaves the storage as it is.  When every other record loads, the result is exactly the
  list of their keys, in order.  In particular, with an engine that opens what it has
  wrapped, a collection of one corrupted public record and one valid private record
  wrapped under \<open>W\<close> loads under \<open>W\<close> to exactly the valid record, in either order.
\<close>

theorem load_corruption_tolerance:
  "(corrupted eng pw c \<longrightarrow>
      loadKeysFromStorage eng pw (st\<lparr>keys_item := Some (Json_array (xs @ Entry c # ys))\<rparr>)
        = (fst (loadKeysFromStorage eng pw (st\<lparr>keys_item := Some (Json_array (xs @ ys))\<rparr>)),
           st\<lparr>keys_item := Some (Json_array (xs @ Entry c # ys))\<rparr>))
   \<and> (corrupted eng pw c \<and> list_all2 (\<lambda>r k. loadKey eng pw r = Loaded k) (rs1 @ rs2) ks \<longrightarrow>
      fst (loadKeysFromStorage eng pw
             (st\<lparr>keys_item := Some (Json_array (map Entry rs1 @ Entry c # map Entry rs2))\<rparr>))
        = Inr ks)
   \<and> (round_trip eng \<and> corrupted eng W c \<and> sk_type c \<noteq> ascii ''private''
       \<and> sk_type v = ascii ''private'' \<and> wrapped_under eng (sk_data v) a W
       \<and> readPrivateKey eng a = Parsed ko \<and> hydrate a ko = Inr k \<longrightarrow>
      fst (loadKeysFromStorage eng W (st\<lparr>keys_item := Some (Json_array [Entry c, Entry v])\<rparr>))
        = Inr [k]
      \<and> fst (loadKeysFromStorage eng W (st\<lparr>keys_item := Some (Json_array [Entry v, Entry c])\<rparr>))
        = Inr [k])"
proof (intro conjI impI)
  assume "corrupted eng pw c"
  then have "loadKey eng pw c = Skip" by (rule corrupted_skipped)
  then show "loadKeysFromStorage eng pw (st\<lparr>keys_item := Some (Json_array (xs @ Entry c # ys))\<rparr>)
        = (fst (loadKeysFromStorage eng pw (st\<lparr>keys_item := Some (Json_array (xs @ ys))\<rparr>)),
           st\<lparr>keys_item := Some (Json_array (xs @ Entry c # ys))\<rparr>)"
    by (simp add: load_array load_loop_skip)
next
  assume h: "corrupted eng pw c \<and> list_all2 (\<lambda>r k. loadKey eng pw r = Loaded k) (rs1 @ rs2) ks"
  then have "loadKey eng pw c = Skip" by (simp add: corrupted_skipped)
  then have "load_loop eng pw (map Entry rs1 @ Entry c # map Entry rs2) []
               = load_loop eng pw (map Entry (rs1 @ rs2)) []"
    by (simp add: load_loop_skip)
  also have "\<dots> = Inr ([] @ ks)"
    using h by (intro load_loop_all_loaded) simp
  finally show "fst (loadKeysFromStorage eng pw
             (st\<lparr>keys_item := Some (Json_array (map Entry rs1 @ Entry c # map Entry rs2))\<rparr>))
        = Inr ks"
    by (simp add: load_array)
next
  assume h: "round_trip eng \<and> corrupted eng W c \<and> sk_type c \<noteq> ascii ''private''
       \<and> sk_type v = ascii ''private'' \<and> wrapped_under eng (sk_data v) a W
       \<and> readPrivateKey eng a = Parsed ko \<and> hydrate a ko = Inr k"
  then have c: "loadKey eng W c = Skip" by (simp add: corrupted_skipped)
  from h have "decrypt_sym eng (sk_data v) W = Decrypted_string a"
    unfolding round_trip_def by blast
  with h have v: "loadKey eng W v = Loaded k"
    unfolding loadKey_Loaded_iff by auto
  from c v show "fst (loadKeysFromStorage eng W (st\<lparr>keys_item := Some (Json_array [Entry c, Entry v])\<rparr>))
        = Inr [k]"
    by (simp add: load_array)
  from c v show "fst (loadKeysFromStorage eng W (st\<lparr>keys_item := Some (Json_array [Entry v, Entry c])\<rparr>))
        = Inr [k]"
    by (simp add: load_array)
qed

lemma sample_corrupt_corrupted: "corrupted toy_engine pw sample_corrupt"
  by (simp add: corrupted_def sample_corrupt_def toy_engine_def toy_readKey_def ascii_def)

text \<open>
  A run with the small engine: a public record that is not a key, then a private record
  wrapped under \<open>w\<close>.
\<close>

theorem load_corruption_tolerance_witness:
  "fst (loadKeysFromStorage toy_engine (ascii ''w'')
          (sample_storage (Some (Json_array [Entry sample_corrupt, Entry sample_private]))))
     = Inr [sample_key True (ascii ''bb'') (ascii ''Sbb'')]"
proof -
  have "readPrivateKey toy_engine (ascii ''Sbb'')
          = Parsed (toy_key True (ascii ''bb'') (ascii ''Sbb''))"
    by (simp add: toy_engine_def toy_readPrivateKey_def ascii_def)
  moreover have "sk_type sample_corrupt \<noteq> ascii ''private''"
    by (simp add: sample_corrupt_def ascii_def)
  moreover have "sk_type sample_private = ascii ''private''"
    by (simp add: sample_private_def)
  moreover note toy_round_trip sample_corrupt_corrupted[of "ascii ''w''"] sample_private_wrapped
    toy_hydrate[of "ascii ''Sbb''" True "ascii ''bb''"]
  ultimately have
    "fst (loadKeysFromStorage toy_engine (ascii ''w'')
            ((sample_storage None)
               \<lparr>keys_item := Some (Json_array [Entry sample_corrupt, Entry sample_private])\<rparr>))
       = Inr [sample_key True (ascii ''bb'') (ascii ''Sbb'')]"
    using load_corruption_tolerance[where eng = toy_engine and W = "ascii ''w''"
        and c = sample_corrupt and v = sample_private and a = "ascii ''Sbb''"
        and ko = "toy_key True (ascii ''bb'') (ascii ''Sbb'')"
        and k = "sample_key True (ascii ''bb'') (ascii ''Sbb'')" and st = "sample_storage None"]
    by blast
  then show ?thesis
    by (simp add: sample_storage_def)
qed

text \<open>
  Claim C5, as amended.  For every stored record that \<open>loadKeysFromStorage\<close> decrypts
  and parses, the hydrated record is built from the parsed key object and the armored
  text alone: its kind is \<open>keyObject.isPrivate()\<close>, its key id is that of the key
  object, and its identities and creation time are those of the key object.  The stored
  kind only chooses whether the data is decrypted and which parser reads it.  The cached
  fields of the stored record (key id, identities, creation time) are never read: changing
  them changes nothing.
\<close>

theorem hydrated_metadata_from_parsed_key:
  assumes "loadKey eng pw r = Loaded k"
  shows "isPrivate k = ko_isPrivate (keyObject k)
       \<and> keyId k = ko_keyID (keyObject k)
       \<and> creationTime k = ko_creationTime (keyObject k)
       \<and> hydrate (armored k) (keyObject k) = Inr k
       \<and> (if sk_type r = ascii ''private''
          then decrypt_sym eng (sk_data r) pw = Decrypted_string (armored k)
               \<and> readPrivateKey eng (armored k) = Parsed (keyObject k)
          else armored k = sk_data r \<and> readKey eng (armored k) = Parsed (keyObject k))
       \<and> loadKey eng pw (r\<lparr>sk_keyId := i, sk_userIds := u, sk_primaryUserId := p,
                             sk_creationTime := t\<rparr>) = Loaded k"
proof -
  from assms obtain a ko where
    parse: "if sk_type r = ascii ''private''
            then decrypt_sym eng (sk_data r) pw = Decrypted_string a
                 \<and> readPrivateKey eng a = Parsed ko
            else a = sk_data r \<and> readKey eng a = Parsed ko"
    and hyd: "hydrate a ko = Inr k"
    unfolding loadKey_Loaded_iff by blast
  from hyd have f: "armored k = a" "keyObject k = ko" "keyId k = ko_keyID ko"
    "isPrivate k = ko_isPrivate ko" "creationTime k = ko_creationTime ko"
    using hydrate_fields by blast+
  have "loadKey eng pw (r\<lparr>sk_keyId := i, sk_userIds := u, sk_primaryUserId := p,
                             sk_creationTime := t\<rparr>) = Loaded k"
    unfolding loadKey_Loaded_iff using parse hyd
    by (intro exI[of _ a] exI[of _ ko]) (auto split: if_splits)
  with parse hyd f show ?thesis by (auto split: if_splits)
qed

lemma sample_private_loads:
  "loadKey toy_engine (ascii ''w'') sample_private
     = Loaded (sample_key True (ascii ''bb'') (ascii ''Sbb''))"
  unfolding loadKey_Loaded_iff
  by (intro exI[of _ "ascii ''Sbb''"] exI[of _ "toy_key True (ascii ''bb'') (ascii ''Sbb'')"])
     (simp add: sample_private_def toy_engine_def toy_decrypt_def toy_readPrivateKey_def
        toy_hydrate ascii_def)

text \<open>
  A run with the small engine: the private sample record with its cached fields
  overwritten loads to the same key.
\<close>

theorem hydrated_metadata_from_parsed_key_witness:
  "loadKey toy_engine (ascii ''w'')
     (sample_private\<lparr>sk_keyId := [], sk_userIds := [], sk_primaryUserId := [],
                     sk_creationTime := 5\<rparr>)
     = Loaded (sample_key True (ascii ''bb'') (ascii ''Sbb''))"
  using hydrated_metadata_from_parsed_key[OF sample_private_loads] by blast

text \<open>
  Claim C5 as stated fails: a record stored as public whose data is an armored private
  key (which \<open>readKey\<close> parses into a private key object) is hydrated as a private
  record, against its stored kind.
\<close>

theorem mislabelled_record_loads_private:
  "sk_type sample_mislabelled = ascii ''public''
   \<and> fst (loadKeysFromStorage toy_engine (ascii ''w'')
            (sample_storage (Some (Json_array [Entry sample_mislabelled]))))
       = Inr [sample_key True (ascii ''dd'') (ascii ''Sdd'')]
   \<and> isPrivate (sample_key True (ascii ''dd'') (ascii ''Sdd''))"
proof -
  have "loadKey toy_engine (ascii ''w'') sample_mislabelled
          = Loaded (sample_key True (ascii ''dd'') (ascii ''Sdd''))"
    unfolding loadKey_Loaded_iff
    by (intro exI[of _ "ascii ''Sdd''"] exI[of _ "toy_key True (ascii ''dd'') (ascii ''Sdd'')"])
       (simp add: sample_mislabelled_def toy_engine_def toy_readKey_def toy_hydrate ascii_def)
  then show ?thesis
    by (simp add: loadKeysFromStorage_def sample_storage_def sample_mislabelled_def
          sample_key_def)
qed

section \<open>addKey\<close>

lemma findIndex_Some: "findIndex P xs = Some i \<Longrightarrow> i < length xs \<and> P (xs ! i)"
proof (induction xs arbitrary: i)
  case Nil
  then show ?case by simp
next
  case (Cons x xs)
  then show ?case
    by (cases "P x") (auto simp: nth_Cons')
qed

lemma findIndex_None: "findIndex P xs = None \<Longrightarrow> \<forall>x \<in> set xs. \<not> P x"
  by (induction xs) (auto split: if_splits)

lemma saveKeys_keys: "keys (snd (saveKeys eng seeds snap u h)) = keys h"
  by (auto simp: saveKeys_def split: prod.splits sum.splits)

lemma commitKeys_keys: "keys (snd (commitKeys eng seeds snap a u h)) = u"
  using saveKeys_keys[of eng seeds snap u "h\<lparr>keys := u\<rparr>"]
  by (cases "saveKeys eng seeds snap u (h\<lparr>keys := u\<rparr>)") (simp add: commitKeys_def)

lemma distinct_keyId_nth:
  assumes "distinct (map keyId ks)" and "e \<in> set ks" and "i < length ks"
      and "keyId (ks ! i) = keyId e"
  shows "ks ! i = e"
proof -
  from assms(1) have "inj_on keyId (set ks)" by (simp add: distinct_map)
  moreover from assms(3) have "ks ! i \<in> set ks" by simp
  ultimately show ?thesis using assms(2,4) by (auto dest: inj_onD)
qed

lemma upgrade_keeps_ids:
  "i < length ks \<Longrightarrow> keyId (ks ! i) = keyId n \<Longrightarrow> map keyId (ks[i := n]) = map keyId ks"
  by (simp add: map_update list_update_same_conv)

text \<open>
  What \<open>addKey\<close> does when its closure is that of the latest render (\<open>snap = h\<close>) and the
  key list holds at most one record for each key id: the merge rule, and the key ids stay
  unique.
\<close>

lemma addKey_current_closure:
  assumes "distinct (map keyId (keys h))"
  shows "distinct (map keyId (keys (snd (addKey eng seeds h newKey h))))
       \<and> (\<forall>e \<in> set (keys h). keyId e = keyId newKey \<longrightarrow>
            (isPrivate e \<longrightarrow>
               addKey eng seeds h newKey h
                 = ([Alert_private_exists (slice_last 8 (keyId newKey))], h))
          \<and> (\<not> isPrivate e \<and> isPrivate newKey \<longrightarrow>
               (\<exists>i < length (keys h). keys h ! i = e
                  \<and> keys (snd (addKey eng seeds h newKey h)) = (keys h)[i := newKey]))
          \<and> (\<not> isPrivate e \<and> \<not> isPrivate newKey \<longrightarrow>
               addKey eng seeds h newKey h
                 = ([Alert_public_exists (slice_last 8 (keyId newKey))], h)))
       \<and> ((\<forall>e \<in> set (keys h). keyId e \<noteq> keyId newKey) \<longrightarrow>
            keys (snd (addKey eng seeds h newKey h)) = keys h @ [newKey])"
proof (cases "findIndex (\<lambda>k. keyId k = keyId newKey) (keys h)")
  case None
  then have fresh: "\<forall>e \<in> set (keys h). keyId e \<noteq> keyId newKey"
    by (rule findIndex_None)
  have res: "keys (snd (addKey eng seeds h newKey h)) = keys h @ [newKey]"
    using None by (simp add: addKey_def commitKeys_keys)
  from fresh assms have "distinct (map keyId (keys h @ [newKey]))"
    by auto
  with res fresh show ?thesis by auto
next
  case (Some i)
  then have i: "i < length (keys h)" "keyId (keys h ! i) = keyId newKey"
    using findIndex_Some by fastforce+
  have same: "e \<in> set (keys h) \<Longrightarrow> keyId e = keyId newKey \<Longrightarrow> keys h ! i = e" for e
    using distinct_keyId_nth[OF assms _ i(1)] i(2) by simp
  have found: "\<not> (\<forall>e \<in> set (keys h). keyId e \<noteq> keyId newKey)"
    using i nth_mem by blast
  show ?thesis
  proof (cases "isPrivate (keys h ! i)")
    case True
    then have "addKey eng seeds h newKey h
                 = ([Alert_private_exists (slice_last 8 (keyId newKey))], h)"
      using Some by (simp add: addKey_def)
    with assms True same found show ?thesis by auto
  next
    case False
    show ?thesis
    proof (cases "isPrivate newKey")
      case True
      then have res: "keys (snd (addKey eng seeds h newKey h)) = (keys h)[i := newKey]"
        using Some False by (simp add: addKey_def commitKeys_keys)
      with assms i have "distinct (map keyId (keys (snd (addKey eng seeds h newKey h))))"
        by (simp add: upgrade_keeps_ids)
      with res True False same found i show ?thesis by auto
    next
      case new_public: False
      then have "addKey eng seeds h newKey h
                   = ([Alert_public_exists (slice_last 8 (keyId newKey))], h)"
        using Some False by (simp add: addKey_def)
      with assms new_public False same found show ?thesis by auto
    qed
  qed
qed

lemma first_import_stored:
  "addKey toy_engine (\<lambda>i. i) (sample_home []) (sample_key True (ascii ''aa'') (ascii ''Saa''))
     (sample_home [])
   = ([Alert_imported True (ascii ''aa'') (ascii ''aa'')],
      \<lparr> keys = [sample_key True (ascii ''aa'') (ascii ''Saa'')],
        masterPassword = Some (ascii ''w''),
        local = (sample_storage None)
          \<lparr>keys_item := Some (Json_array
             [Entry (sample_public\<lparr>sk_type := ascii ''private'',
                                    sk_data := 0 # 1 # ascii ''w'' @ ascii ''Saa''\<rparr>)])\<rparr> \<rparr>)"
  by (simp add: addKey_def commitKeys_def saveKeys_def falsy_def saveKeysToStorage_def
        encryptData_def toISOString_def sample_home_def sample_key_def sample_storage_def
        sample_public_def toy_engine_def slice_last_def)
     (simp add: ascii_def)

text \<open>
  Claim C2 fails on the flow that generates a key pair.  \<open>handleGenerateKey\<close> of
  \<open>KeyManagement\<close> imports the private key and then the public key of the new pair, both
  through the \<open>addKey\<close> of one render, whose key list does not hold the pair yet.  The first
  call stores the private record.  The second call still reads the key list of its render:
  it finds no record with the key id, so it does not reject the public key; it builds its
  list from the stale one and writes it over the current list and the persisted
  collection.  The private record, which was stored a moment before, is gone from both.
\<close>

theorem stale_addKey_overwrites_private_record:
  "keys (snd (addKey toy_engine (\<lambda>i. i) (sample_home [])
                (sample_key True (ascii ''aa'') (ascii ''Saa'')) (sample_home [])))
     = [sample_key True (ascii ''aa'') (ascii ''Saa'')]
   \<and> addKey toy_engine (\<lambda>i. i) (sample_home [])
       (sample_key False (ascii ''aa'') (ascii ''Paa''))
       (snd (addKey toy_engine (\<lambda>i. i) (sample_home [])
               (sample_key True (ascii ''aa'') (ascii ''Saa'')) (sample_home [])))
     = ([Alert_imported False (ascii ''aa'') (ascii ''aa'')],
        \<lparr> keys = [sample_key False (ascii ''aa'') (ascii ''Paa'')],
          masterPassword = Some (ascii ''w''),
          local = (sample_storage None)
            \<lparr>keys_item := Some (Json_array [Entry sample_public])\<rparr> \<rparr>)"
  unfolding first_import_stored
  by (simp add: addKey_def commitKeys_def saveKeys_def falsy_def saveKeysToStorage_def
        toISOString_def sample_home_def sample_key_def sample_storage_def
        sample_public_def slice_last_def)
     (simp add: ascii_def)

section \<open>getDecryptedPrivateKeyArmored\<close>

text \<open>
  Claim C10.  \<open>getDecryptedPrivateKeyArmored\<close> returns null, and throws nothing, when
  no private record of the key list has the key id.  When the private record that the
  key id names holds a private key object that is already decrypted, the armored key is
  returned whatever the passphrase argument is: a wrong passphrase, the empty one, or
  none.
\<close>

theorem getDecryptedPrivateKeyArmored_lookup:
  "((\<forall>k \<in> set ks. \<not> (keyId k = kid \<and> isPrivate k)) \<longrightarrow>
      getDecryptedPrivateKeyArmored eng ks kid pp = Inr None)
   \<and> (find (\<lambda>k. keyId k = kid \<and> isPrivate k) ks = Some key
       \<and> ko_isPrivate (keyObject key) \<and> ko_isDecrypted (keyObject key) \<longrightarrow>
      getDecryptedPrivateKeyArmored eng ks kid pp = Inr (Some (ko_armor (keyObject key))))"
proof (intro conjI impI)
  assume "\<forall>k \<in> set ks. \<not> (keyId k = kid \<and> isPrivate k)"
  then have "find (\<lambda>k. keyId k = kid \<and> isPrivate k) ks = None"
    by (simp add: find_None_iff)
  then show "getDecryptedPrivateKeyArmored eng ks kid pp = Inr None"
    by (simp add: getDecryptedPrivateKeyArmored_def)
next
  assume "find (\<lambda>k. keyId k = kid \<and> isPrivate k) ks = Some key
       \<and> ko_isPrivate (keyObject key) \<and> ko_isDecrypted (keyObject key)"
  then show "getDecryptedPrivateKeyArmored eng ks kid pp = Inr (Some (ko_armor (keyObject key)))"
    by (simp add: getDecryptedPrivateKeyArmored_def)
qed

text \<open>
  A run with the small engine: the key id of a public record gives null; an unlocked
  private key is returned under a wrong passphrase and under none.
\<close>

theorem getDecryptedPrivateKeyArmored_lookup_witness:
  "getDecryptedPrivateKeyArmored toy_engine
     [sample_key False (ascii ''aa'') (ascii ''Paa''), sample_key True (ascii ''bb'') (ascii ''Sbb'')]
     (ascii ''aa'') (Some (ascii ''pass'')) = Inr None
   \<and> getDecryptedPrivateKeyArmored toy_engine
     [sample_key False (ascii ''aa'') (ascii ''Paa''), sample_key True (ascii ''bb'') (ascii ''Sbb'')]
     (ascii ''bb'') (Some (ascii ''wrong'')) = Inr (Some (ascii ''Sbb''))
   \<and> getDecryptedPrivateKeyArmored toy_engine
     [sample_key False (ascii ''aa'') (ascii ''Paa''), sample_key True (ascii ''bb'') (ascii ''Sbb'')]
     (ascii ''bb'') None = Inr (Some (ascii ''Sbb''))"
proof -
  let ?ks = "[sample_key False (ascii ''aa'') (ascii ''Paa''),
              sample_key True (ascii ''bb'') (ascii ''Sbb'')]"
  let ?bb = "sample_key True (ascii ''bb'') (ascii ''Sbb'')"
  have none: "\<forall>k \<in> set ?ks. \<not> (keyId k = ascii ''aa'' \<and> isPrivate k)"
    by (simp add: sample_key_def ascii_def)
  have some: "find (\<lambda>k. keyId k = ascii ''bb'' \<and> isPrivate k) ?ks = Some ?bb
       \<and> ko_isPrivate (keyObject ?bb) \<and> ko_isDecrypted (keyObject ?bb)"
    by (simp add: sample_key_def toy_key_def ascii_def)
  have armor: "ko_armor (keyObject ?bb) = ascii ''Sbb''"
    by (simp add: sample_key_def toy_key_def)
  have a: "getDecryptedPrivateKeyArmored toy_engine ?ks (ascii ''aa'') (Some (ascii ''pass''))
             = Inr None"
    using getDecryptedPrivateKeyArmored_lookup[THEN conjunct1, THEN mp, OF none] .
  have b: "getDecryptedPrivateKeyArmored toy_engine ?ks (ascii ''bb'') pp
             = Inr (Some (ascii ''Sbb''))" for pp
    using getDecryptedPrivateKeyArmored_lookup[THEN conjunct2, THEN mp, OF some] armor
    by simp
  from a b show ?thesis by simp
qed

section \<open>The staged context of the passphrase workflows\<close>

lemma sign_onClose_clears:
  "sg_dataToSign (sign_onClose st) = None \<and> sg_keyIdRequiringPassword (sign_onClose st) = None"
  by (simp add: sign_onClose_def)

lemma decrypt_onClose_clears:
  "dc_messageToDecrypt (decrypt_onClose st) = None
   \<and> dc_keyIdRequiringPassword (decrypt_onClose st) = None"
  by (simp add: decrypt_onClose_def)

lemma sign_submit_clears:
  assumes "\<not> falsy (sg_dataToSign st)" and "sg_selectedPrivateKeyId st \<noteq> []"
      and "find (\<lambda>k. keyId k = sg_selectedPrivateKeyId st) privateKeys = Some selectedKey"
  shows "sg_dataToSign (sign_handleKeyPasswordSubmit meng eng privateKeys getDecrypted pw st) = None
       \<and> sg_keyIdRequiringPassword
           (sign_handleKeyPasswordSubmit meng eng privateKeys getDecrypted pw st) = None"
  using assms by (simp add: sign_handleKeyPasswordSubmit_def Let_def)

lemma sign_submit_missing_selection:
  assumes "sg_selectedPrivateKeyId st = []"
  shows "sign_handleKeyPasswordSubmit meng eng privateKeys getDecrypted pw st
           = st\<lparr>sg_error := Some Err_internal_context, sg_showKeyPasswordModal := False\<rparr>"
  using assms by (simp add: sign_handleKeyPasswordSubmit_def)

lemma sign_submit_missing_key:
  assumes "\<not> falsy (sg_dataToSign st)" and "sg_selectedPrivateKeyId st \<noteq> []"
      and "find (\<lambda>k. keyId k = sg_selectedPrivateKeyId st) privateKeys = None"
  shows "sign_handleKeyPasswordSubmit meng eng privateKeys getDecrypted pw st
           = st\<lparr>sg_error := Some Err_internal_key, sg_showKeyPasswordModal := False\<rparr>"
  using assms by (simp add: sign_handleKeyPasswordSubmit_def)

lemma decrypt_submit_clears:
  assumes "dc_messageToDecrypt st = Some m" and "\<not> falsy (dc_keyIdRequiringPassword st)"
      and "filter (\<lambda>pk. keyId pk \<in> set (msg_encryptionKeyIDs m)) privateKeys \<noteq> []"
      and "decrypt_handleKeyPasswordSubmit meng eng privateKeys publicKeys getDecrypted pw st
             = (None, st')"
  shows "dc_messageToDecrypt st' = None \<and> dc_keyIdRequiringPassword st' = None"
  using assms
  by (auto simp: decrypt_handleKeyPasswordSubmit_def Let_def split: prod.splits option.splits)

lemma decrypt_submit_no_matching_key:
  assumes "dc_messageToDecrypt st = Some m" and "\<not> falsy (dc_keyIdRequiringPassword st)"
      and "filter (\<lambda>pk. keyId pk \<in> set (msg_encryptionKeyIDs m)) privateKeys = []"
  shows "decrypt_handleKeyPasswordSubmit meng eng privateKeys publicKeys getDecrypted pw st
           = (None, st\<lparr>dc_showKeyPasswordModal := False, dc_isLoading := False,
                       dc_error := Some Err_no_matching_key\<rparr>)"
  using assms by (simp add: decrypt_handleKeyPasswordSubmit_def Let_def)

lemma handleDecryptClick_fresh:
  "\<not> blank (dc_ciphertext st) \<Longrightarrow>
   handleDecryptClick meng privateKeys publicKeys
     (st\<lparr>dc_messageToDecrypt := m, dc_keyIdRequiringPassword := h\<rparr>)
     = handleDecryptClick meng privateKeys publicKeys st"
  by (simp add: handleDecryptClick_def)

lemma locked_key_id: "keyId sample_locked_key = ascii ''aa''"
  by (simp add: sample_locked_key_def sample_key_def)

lemma hello_not_blank: "\<not> blank (ascii ''hello'')"
  by (simp add: blank_def js_whitespace_def ascii_def)

lemma locked_sign_click:
  "handleSignClick meng [sample_locked_key] (sign_initial (ascii ''hello'') (ascii ''aa''))
     = \<lparr> sg_plaintext = ascii ''hello'', sg_signedMessageOutput = [],
         sg_selectedPrivateKeyId = ascii ''aa'', sg_signMode = Cleartext,
         sg_isLoading = False, sg_error = None, sg_showKeyPasswordModal = True,
         sg_keyIdRequiringPassword = Some (ascii ''aa''),
         sg_dataToSign = Some (ascii ''hello'') \<rparr>"
proof -
  have sel: "ascii ''aa'' \<noteq> []"
    by (simp add: ascii_def)
  have f: "find (\<lambda>k. keyId k = ascii ''aa'') [sample_locked_key] = Some sample_locked_key"
    by (simp add: locked_key_id)
  have obj: "ko_isPrivate (keyObject sample_locked_key)"
    "\<not> ko_isDecrypted (keyObject sample_locked_key)"
    by (simp_all add: sample_locked_key_def toy_key_def)
  have hint: "slice_last 16 (ascii ''aa'') = ascii ''aa''"
    by (simp add: slice_last_def ascii_def)
  show ?thesis
    using hello_not_blank sel obj
    by (simp add: handleSignClick_def sign_initial_def f hint locked_key_id)
qed

text \<open>
  Claim C6 fails on \<open>SignMessage\<close>.  The selected private key (key id \<open>aa\<close>) is locked, so
  the click stages the plaintext and the key id hint and opens the passphrase modal.  While
  the modal is open the key is deleted: the key list of the component becomes empty and its
  effect clears the selection.  Submitting a passphrase then takes the first early return
  of \<open>handleKeyPasswordSubmit\<close>, which comes before the \<open>try\<close> whose \<open>finally\<close> clears the
  context: the modal is closed, an error is displayed, and the staged plaintext and the
  hint are still held.  A submission that arrives before the effect has cleared the
  selection takes the second early return, with the same outcome.  No call of the engine
  is involved.
\<close>

theorem sign_submit_keeps_staged_plaintext:
  "sign_handleKeyPasswordSubmit meng eng [] getDecrypted pw
     (sign_keysEffect []
        (handleSignClick meng [sample_locked_key] (sign_initial (ascii ''hello'') (ascii ''aa''))))
   = \<lparr> sg_plaintext = ascii ''hello'', sg_signedMessageOutput = [],
       sg_selectedPrivateKeyId = [], sg_signMode = Cleartext,
       sg_isLoading = False, sg_error = Some Err_internal_context,
       sg_showKeyPasswordModal = False,
       sg_keyIdRequiringPassword = Some (ascii ''aa''),
       sg_dataToSign = Some (ascii ''hello'') \<rparr>
   \<and> sign_handleKeyPasswordSubmit meng eng [] getDecrypted pw
       (handleSignClick meng [sample_locked_key] (sign_initial (ascii ''hello'') (ascii ''aa'')))
   = \<lparr> sg_plaintext = ascii ''hello'', sg_signedMessageOutput = [],
       sg_selectedPrivateKeyId = ascii ''aa'', sg_signMode = Cleartext,
       sg_isLoading = False, sg_error = Some Err_internal_key,
       sg_showKeyPasswordModal = False,
       sg_keyIdRequiringPassword = Some (ascii ''aa''),
       sg_dataToSign = Some (ascii ''hello'') \<rparr>"
proof -
  have ne: "ascii ''aa'' \<noteq> []" "ascii ''hello'' \<noteq> []"
    by (simp_all add: ascii_def)
  show ?thesis
    unfolding locked_sign_click
    using ne
    by (simp add: sign_keysEffect_def sign_handleKeyPasswordSubmit_def falsy_def)
qed

end
